theory Spec2Isabelle
  imports Complex_Main "HOL-Library.Sublist"
begin

section \<open>JavaScript values\<close>

text \<open>
  The pipeline of \<^verbatim>\<open>anime-poc.ts\<close> reads parsed JSON and builds object literals.
  Its TypeScript types are erased at run time, so the raw payloads are modelled
  as untyped JavaScript values. Numbers are carried through unchanged and are
  taken as the rationals they denote (parsed JSON holds no \<^verbatim>\<open>NaN\<close>; a literal
  that overflows to \<^verbatim>\<open>Infinity\<close> is left out); strings are byte lists.
  \<open>JUndefined\<close> is what the read of an absent property gives. \<open>JDate\<close> is a
  \<^verbatim>\<open>Date\<close> object with its time value in milliseconds, \<open>None\<close> for the
  \<^verbatim>\<open>NaN\<close> time value of an invalid date. An object is the list of its own
  properties.
\<close>

datatype jsval =
    JUndefined
  | JNull
  | JBool bool
  | JNum rat
  | JStr string
  | JArr "jsval list"
  | JObj "(string \<times> jsval) list"
  | JDate "int option"

text \<open>
  What the program can throw: a \<^verbatim>\<open>TypeError\<close> (a property read of
  \<^verbatim>\<open>null\<close> or \<^verbatim>\<open>undefined\<close>, a call of something that is not a function,
  a failed network request), a \<^verbatim>\<open>SyntaxError\<close> (a body that is not JSON), and
  the \<^verbatim>\<open>new Error(message)\<close> of \<^verbatim>\<open>fetchJikan\<close>.
\<close>

datatype error = TypeError | SyntaxError | Error string

definition bindE :: "error + 'a \<Rightarrow> ('a \<Rightarrow> error + 'b) \<Rightarrow> error + 'b" where
  "bindE m f = (case m of Inl e \<Rightarrow> Inl e | Inr x \<Rightarrow> f x)"

fun nullish :: "jsval \<Rightarrow> bool" where
  "nullish JUndefined = True"
| "nullish JNull = True"
| "nullish _ = False"

text \<open>JavaScript's truthiness, the test of \<^verbatim>\<open>||\<close> and \<^verbatim>\<open>? :\<close>.\<close>

fun truthy :: "jsval \<Rightarrow> bool" where
  "truthy JUndefined = False"
| "truthy JNull = False"
| "truthy (JBool b) = b"
| "truthy (JNum n) = (n \<noteq> 0)"
| "truthy (JStr s) = (s \<noteq> [])"
| "truthy (JArr xs) = True"
| "truthy (JObj kvs) = True"
| "truthy (JDate t) = True"

text \<open>
  \<open>property v k\<close> is the property read \<^verbatim>\<open>v.k\<close> on a value that is neither
  \<^verbatim>\<open>null\<close> nor \<^verbatim>\<open>undefined\<close>. None of the property names this program reads
  is a built-in property of strings, numbers, booleans, arrays or dates, so
  the read gives \<^verbatim>\<open>undefined\<close> on everything but an object that has the key.
\<close>

fun property :: "jsval \<Rightarrow> string \<Rightarrow> jsval" where
  "property (JObj kvs) k = (case map_of kvs k of Some v \<Rightarrow> v | None \<Rightarrow> JUndefined)"
| "property _ k = JUndefined"

text \<open>\<^verbatim>\<open>v.k\<close>: throws on \<^verbatim>\<open>null\<close> and \<^verbatim>\<open>undefined\<close>.\<close>

definition get :: "jsval \<Rightarrow> string \<Rightarrow> error + jsval" where
  "get v k = (if nullish v then Inl TypeError else Inr (property v k))"

text \<open>\<^verbatim>\<open>v?.k\<close>: \<^verbatim>\<open>undefined\<close> on \<^verbatim>\<open>null\<close> and \<^verbatim>\<open>undefined\<close>.\<close>

definition optGet :: "jsval \<Rightarrow> string \<Rightarrow> jsval" where
  "optGet v k = (if nullish v then JUndefined else property v k)"

text \<open>\<^verbatim>\<open>a || b\<close>.\<close>

definition or_else :: "jsval \<Rightarrow> jsval \<Rightarrow> jsval" where
  "or_else a b = (if truthy a then a else b)"

subsection \<open>Array methods\<close>

text \<open>
  A callback may throw; the first throw ends the traversal. On a value that is
  not an array, \<^verbatim>\<open>v.map\<close>, \<^verbatim>\<open>v.filter\<close> and \<^verbatim>\<open>v.flatMap\<close> are
  \<^verbatim>\<open>undefined\<close> (or \<open>v\<close> itself is), and the call throws a \<^verbatim>\<open>TypeError\<close>.
\<close>

primrec mapE :: "('a \<Rightarrow> error + 'b) \<Rightarrow> 'a list \<Rightarrow> error + 'b list" where
  "mapE f [] = Inr []"
| "mapE f (x # xs) =
     (case f x of
        Inl e \<Rightarrow> Inl e
      | Inr y \<Rightarrow> (case mapE f xs of Inl e \<Rightarrow> Inl e | Inr ys \<Rightarrow> Inr (y # ys)))"

primrec filterE :: "('a \<Rightarrow> error + bool) \<Rightarrow> 'a list \<Rightarrow> error + 'a list" where
  "filterE p [] = Inr []"
| "filterE p (x # xs) =
     (case p x of
        Inl e \<Rightarrow> Inl e
      | Inr b \<Rightarrow> (case filterE p xs of
                    Inl e \<Rightarrow> Inl e
                  | Inr ys \<Rightarrow> Inr (if b then x # ys else ys)))"

definition Array_map :: "jsval \<Rightarrow> (jsval \<Rightarrow> error + jsval) \<Rightarrow> error + jsval" where
  "Array_map v f =
     (case v of
        JArr xs \<Rightarrow> bindE (mapE f xs) (\<lambda>ys. Inr (JArr ys))
      | _ \<Rightarrow> Inl TypeError)"

definition Array_filter :: "jsval \<Rightarrow> (jsval \<Rightarrow> error + bool) \<Rightarrow> error + jsval" where
  "Array_filter v p =
     (case v of
        JArr xs \<Rightarrow> bindE (filterE p xs) (\<lambda>ys. Inr (JArr ys))
      | _ \<Rightarrow> Inl TypeError)"

text \<open>\<^verbatim>\<open>flatMap\<close> spreads a callback result that is an array and keeps any other.\<close>

fun flat1 :: "jsval \<Rightarrow> jsval list" where
  "flat1 (JArr ys) = ys"
| "flat1 v = [v]"

definition Array_flatMap :: "jsval \<Rightarrow> (jsval \<Rightarrow> error + jsval) \<Rightarrow> error + jsval" where
  "Array_flatMap v f =
     (case v of
        JArr xs \<Rightarrow> bindE (mapE f xs) (\<lambda>ys. Inr (JArr (concat (map flat1 ys))))
      | _ \<Rightarrow> Inl TypeError)"

text \<open>The elements that the spread \<^verbatim>\<open>...a\<close> of an array contributes.\<close>

fun elems :: "jsval \<Rightarrow> jsval list" where
  "elems (JArr xs) = xs"
| "elems _ = []"

section \<open>The mapping logic of \<^verbatim>\<open>getFullAnimeDetails\<close>\<close>

text \<open>
  \<^verbatim>\<open>p => ({ company: { id: p.mal_id, name: p.name }, type: T })\<close>, the callback
  of the three \<^verbatim>\<open>map\<close> calls that build \<^verbatim>\<open>companies\<close>.
\<close>

definition company_of :: "string \<Rightarrow> jsval \<Rightarrow> error + jsval" where
  "company_of T p =
     bindE (get p ''mal_id'') (\<lambda>i.
     bindE (get p ''name'') (\<lambda>n.
       Inr (JObj [(''company'', JObj [(''id'', i), (''name'', n)]),
                  (''type'', JStr T)])))"

definition companies :: "jsval \<Rightarrow> error + jsval" where
  "companies rawAnime =
     bindE (get rawAnime ''producers'') (\<lambda>producers.
     bindE (Array_map producers (company_of ''Producer'')) (\<lambda>a.
     bindE (get rawAnime ''licensors'') (\<lambda>licensors.
     bindE (Array_map licensors (company_of ''Licensor'')) (\<lambda>b.
     bindE (get rawAnime ''studios'') (\<lambda>studios.
     bindE (Array_map studios (company_of ''Studio'')) (\<lambda>c.
       Inr (JArr (elems a @ elems b @ elems c))))))))"

text \<open>\<^verbatim>\<open>t => ({ type: T, text: t })\<close>.\<close>

definition theme_of :: "string \<Rightarrow> jsval \<Rightarrow> error + jsval" where
  "theme_of T t = Inr (JObj [(''type'', JStr T), (''text'', t)])"

definition themes :: "jsval \<Rightarrow> error + jsval" where
  "themes rawAnime =
     bindE (get rawAnime ''theme'') (\<lambda>theme.
     bindE (Array_map (or_else (optGet theme ''openings'') (JArr [])) (theme_of ''Opening'')) (\<lambda>a.
     bindE (get rawAnime ''theme'') (\<lambda>theme'.
     bindE (Array_map (or_else (optGet theme' ''endings'') (JArr [])) (theme_of ''Ending'')) (\<lambda>b.
       Inr (JArr (elems a @ elems b))))))"

text \<open>
  \<^verbatim>\<open>rawAnime.relations?.flatMap(rel => rel.entry.filter(e => e.type === 'anime').map(...)) || []\<close>.
  The optional chain gives \<^verbatim>\<open>undefined\<close> when \<^verbatim>\<open>relations\<close> is \<^verbatim>\<open>null\<close> or
  \<^verbatim>\<open>undefined\<close>, and only then does \<^verbatim>\<open>|| []\<close> choose its right operand.
\<close>

definition relatedEntries :: "jsval \<Rightarrow> error + jsval" where
  "relatedEntries rawAnime =
     bindE (get rawAnime ''relations'') (\<lambda>relations.
     bindE (if nullish relations then Inr JUndefined
            else Array_flatMap relations (\<lambda>rel.
              bindE (get rel ''entry'') (\<lambda>entry.
              bindE (Array_filter entry (\<lambda>e.
                       bindE (get e ''type'') (\<lambda>t. Inr (t = JStr ''anime'')))) (\<lambda>kept.
                Array_map kept (\<lambda>entry.
                  bindE (get rel ''relation'') (\<lambda>r.
                  bindE (get entry ''mal_id'') (\<lambda>i.
                  bindE (get entry ''name'') (\<lambda>n.
                    Inr (JObj [(''relationType'', r),
                               (''relatedAnimeId'', i),
                               (''relatedAnimeTitle'', n)]))))))))) (\<lambda>mapped.
       Inr (or_else mapped (JArr []))))"

text \<open>
  \<^verbatim>\<open>{ id: x.mal_id, name: x.name, image: x.images?.jpg?.image_url || null }\<close>,
  the literal written out for \<^verbatim>\<open>c.character\<close>, for \<^verbatim>\<open>va.person\<close> and for
  \<^verbatim>\<open>s.person\<close>.
\<close>

definition image_url_or_null :: "jsval \<Rightarrow> jsval" where
  "image_url_or_null images = or_else (optGet (optGet images ''jpg'') ''image_url'') JNull"

definition person_of :: "jsval \<Rightarrow> error + jsval" where
  "person_of x =
     bindE (get x ''mal_id'') (\<lambda>i.
     bindE (get x ''name'') (\<lambda>n.
     bindE (get x ''images'') (\<lambda>images.
       Inr (JObj [(''id'', i), (''name'', n), (''image'', image_url_or_null images)]))))"

definition voiceActor_of :: "jsval \<Rightarrow> error + jsval" where
  "voiceActor_of va =
     bindE (get va ''language'') (\<lambda>language.
     bindE (get va ''person'') (\<lambda>person.
     bindE (person_of person) (\<lambda>p.
       Inr (JObj [(''language'', language), (''person'', p)]))))"

definition character_of :: "jsval \<Rightarrow> error + jsval" where
  "character_of c =
     bindE (get c ''role'') (\<lambda>role.
     bindE (get c ''character'') (\<lambda>character.
     bindE (person_of character) (\<lambda>ch.
     bindE (get c ''voice_actors'') (\<lambda>voice_actors.
     bindE (Array_map voice_actors voiceActor_of) (\<lambda>vas.
       Inr (JObj [(''role'', role), (''character'', ch), (''voiceActors'', vas)]))))))"

definition characters :: "jsval \<Rightarrow> error + jsval" where
  "characters rawChars = Array_map rawChars character_of"

text \<open>
  \<^verbatim>\<open>rawStaff.flatMap(s => s.positions.map(role => ({ role: role, person: {...} })))\<close>.
  \<^verbatim>\<open>s.person\<close> is read inside the inner callback, once per position.
\<close>

definition staff_of :: "jsval \<Rightarrow> error + jsval" where
  "staff_of s =
     bindE (get s ''positions'') (\<lambda>positions.
       Array_map positions (\<lambda>role.
         bindE (get s ''person'') (\<lambda>person.
         bindE (person_of person) (\<lambda>p.
           Inr (JObj [(''role'', role), (''person'', p)])))))"

definition staff :: "jsval \<Rightarrow> error + jsval" where
  "staff rawStaff = Array_flatMap rawStaff staff_of"

text \<open>\<^verbatim>\<open>g => ({ id: g.mal_id, name: g.name })\<close>.\<close>

definition genre_of :: "jsval \<Rightarrow> error + jsval" where
  "genre_of g =
     bindE (get g ''mal_id'') (\<lambda>i.
     bindE (get g ''name'') (\<lambda>n.
       Inr (JObj [(''id'', i), (''name'', n)])))"

text \<open>
  \<^verbatim>\<open>x ? new Date(x) : null\<close> for \<^verbatim>\<open>x = rawAnime.aired?.from\<close> and
  \<^verbatim>\<open>rawAnime.aired?.to\<close>. What \<^verbatim>\<open>new Date\<close> makes of its argument is the
  engine's business: \<open>D v\<close> is the time value of \<^verbatim>\<open>new Date(v)\<close>, \<open>None\<close> when
  the date is invalid.
\<close>

definition date_or_null :: "(jsval \<Rightarrow> int option) \<Rightarrow> jsval \<Rightarrow> jsval" where
  "date_or_null D x = (if truthy x then JDate (D x) else JNull)"

text \<open>
  The object literal of the \<^verbatim>\<open>return\<close> statement. Its parameters \<open>co\<close>,
  \<open>th\<close>, \<open>re\<close>, \<open>ch\<close> and \<open>sf\<close> are the local constants \<^verbatim>\<open>companies\<close>,
  \<^verbatim>\<open>themes\<close>, \<^verbatim>\<open>relatedEntries\<close>, \<^verbatim>\<open>characters\<close> and \<^verbatim>\<open>staff\<close>, and
  \<open>ge\<close> is the result of \<^verbatim>\<open>rawAnime.genres.map(...)\<close>. The reads of \<^verbatim>\<open>rawAnime\<close>
  in it come after \<^verbatim>\<open>rawAnime.producers\<close>, which has thrown if
  \<^verbatim>\<open>rawAnime\<close> is \<^verbatim>\<open>null\<close> or \<^verbatim>\<open>undefined\<close>, so they are plain property
  reads.
\<close>

definition Anime_entry ::
  "(jsval \<Rightarrow> int option) \<Rightarrow> jsval \<Rightarrow> jsval \<Rightarrow> jsval \<Rightarrow> jsval \<Rightarrow> jsval \<Rightarrow> jsval \<Rightarrow> jsval \<Rightarrow> jsval" where
  "Anime_entry D rawAnime co th re ch sf ge =
     JObj [
         (''id'', property rawAnime ''mal_id''),
         (''title'', property rawAnime ''title''),
         (''titleEnglish'', property rawAnime ''title_english''),
         (''titleJapanese'', property rawAnime ''title_japanese''),
         (''type'', property rawAnime ''type''),
         (''status'', property rawAnime ''status''),
         (''episodes'', property rawAnime ''episodes''),
         (''duration'', property rawAnime ''duration''),
         (''rating'', property rawAnime ''rating''),
         (''source'', property rawAnime ''source''),
         (''airedString'', optGet (property rawAnime ''aired'') ''string''),
         (''airedFrom'', date_or_null D (optGet (property rawAnime ''aired'') ''from'')),
         (''airedTo'', date_or_null D (optGet (property rawAnime ''aired'') ''to'')),
         (''mainPicture'',
            or_else (optGet (optGet (property rawAnime ''images'') ''jpg'') ''large_image_url'')
                    (optGet (optGet (property rawAnime ''images'') ''jpg'') ''image_url'')),
         (''synopsis'', property rawAnime ''synopsis''),
         (''background'', property rawAnime ''background''),
         (''stats'', JObj [
            (''score'', property rawAnime ''score''),
            (''ranked'', property rawAnime ''rank''),
            (''popularity'', property rawAnime ''popularity''),
            (''members'', property rawAnime ''members''),
            (''favorites'', property rawAnime ''favorites'')]),
         (''genres'', ge),
         (''companies'', co),
         (''themes'', th),
         (''relatedEntries'', re),
         (''characters'', ch),
         (''staff'', sf)]"

text \<open>
  From the comment \<^verbatim>\<open>MAPPING LOGIC\<close> to the \<^verbatim>\<open>return\<close>: the five local
  constants in the order of the source, then the literal, in which
  \<^verbatim>\<open>rawAnime.genres.map\<close> is the one call that can still throw.
\<close>

definition mapAnime ::
  "(jsval \<Rightarrow> int option) \<Rightarrow> jsval \<Rightarrow> jsval \<Rightarrow> jsval \<Rightarrow> error + jsval" where
  "mapAnime D rawAnime rawChars rawStaff =
     bindE (companies rawAnime) (\<lambda>companies.
     bindE (themes rawAnime) (\<lambda>themes.
     bindE (relatedEntries rawAnime) (\<lambda>relatedEntries.
     bindE (characters rawChars) (\<lambda>characters.
     bindE (staff rawStaff) (\<lambda>staff.
     bindE (Array_map (property rawAnime ''genres'') genre_of) (\<lambda>genres.
       Inr (Anime_entry D rawAnime companies themes relatedEntries characters staff genres)))))))"

section \<open>The fetcher\<close>

text \<open>
  A response of \<^verbatim>\<open>fetch\<close>: \<open>json\<close> is what \<^verbatim>\<open>res.json()\<close> settles to, the
  parsed body or the error it rejects with. \<^verbatim>\<open>res.ok\<close> is defined by the
  Fetch standard as a status from 200 to 299.
\<close>

record response =
  status :: nat
  statusText :: string
  json :: "error + jsval"

definition ok :: "response \<Rightarrow> bool" where
  "ok res = (200 \<le> status res \<and> status res \<le> 299)"

datatype outcome = Rejected error | Resolved response

text \<open>
  The world outside the program: the upstream server and the network behind
  \<^verbatim>\<open>fetch\<close>, the timer behind \<^verbatim>\<open>setTimeout\<close>, and the engine's \<^verbatim>\<open>Date\<close>.
  The upstream may answer the same URL differently each time, so a request
  takes the state of the world and returns the next one.
\<close>

record 'w platform =
  fetch :: "string \<Rightarrow> 'w \<Rightarrow> outcome \<times> 'w"
  setTimeout :: "nat \<Rightarrow> 'w \<Rightarrow> 'w"
  newDate :: "jsval \<Rightarrow> int option"

datatype event = ConsoleLog string | Fetch string | Timeout nat

record 'w state =
  trace :: "event list"
  world :: 'w

definition BASE_URL :: string where
  "BASE_URL = ''https://api.jikan.moe/v4''"

definition DELAY_MS :: nat where
  "DELAY_MS = 1000"

definition sleep :: "'w platform \<Rightarrow> nat \<Rightarrow> 'w state \<Rightarrow> 'w state" where
  "sleep P ms s = \<lparr>trace = trace s @ [Timeout ms], world = setTimeout P ms (world s)\<rparr>"

text \<open>
  The decimal rendering of a template literal \<^verbatim>\<open>${n}\<close>, for an integer
  \<open>n\<close> below \<open>10^21\<close> in magnitude (beyond that JavaScript switches to exponent
  notation).
\<close>

fun decimal :: "nat \<Rightarrow> string" where
  "decimal n =
     (if n < 10 then [''0123456789'' ! n]
      else decimal (n div 10) @ [''0123456789'' ! (n mod 10)])"

declare decimal.simps [simp del]

definition Number_toString :: "int \<Rightarrow> string" where
  "Number_toString i = (if i < 0 then ''-'' @ decimal (nat (- i)) else decimal (nat i))"

definition fetchJikan :: "'w platform \<Rightarrow> string \<Rightarrow> 'w state \<Rightarrow> (error + jsval) \<times> 'w state" where
  "fetchJikan P endpoint s =
     (let (out, w) = fetch P (BASE_URL @ endpoint) (world s);
          s' = \<lparr>trace = trace s @ [ConsoleLog (''[FETCHER] Requesting: '' @ endpoint),
                                     Fetch (BASE_URL @ endpoint)],
                world = w\<rparr>
      in case out of
           Rejected e \<Rightarrow> (Inl e, s')
         | Resolved res \<Rightarrow>
             if \<not> ok res
             then (Inl (Error (''Jikan API Error '' @ Number_toString (int (status res))
                               @ '': '' @ statusText res)), s')
             else (bindE (json res) (\<lambda>j. get j ''data''), s'))"

section \<open>\<^verbatim>\<open>getFullAnimeDetails\<close>\<close>

text \<open>
  The function is modelled in its two halves. \<open>fetchRaw\<close> is the body up to the
  declaration of \<^verbatim>\<open>rawStaff\<close>: the three awaited fetches with the two awaited
  sleeps between them, each fetch ending the call when it throws. \<open>mapAnime\<close>
  above is the rest, and \<open>getFullAnimeDetails\<close> runs one after the other.
\<close>

definition fetchRaw ::
  "'w platform \<Rightarrow> int \<Rightarrow> 'w state \<Rightarrow> (error + jsval \<times> jsval \<times> jsval) \<times> 'w state" where
  "fetchRaw P malId s0 =
     (case fetchJikan P (''/anime/'' @ Number_toString malId @ ''/full'') s0 of
        (Inl e, s1) \<Rightarrow> (Inl e, s1)
      | (Inr rawAnime, s1) \<Rightarrow>
     (case fetchJikan P (''/anime/'' @ Number_toString malId @ ''/characters'')
                        (sleep P DELAY_MS s1) of
        (Inl e, s2) \<Rightarrow> (Inl e, s2)
      | (Inr rawChars, s2) \<Rightarrow>
     (case fetchJikan P (''/anime/'' @ Number_toString malId @ ''/staff'')
                        (sleep P DELAY_MS s2) of
        (Inl e, s3) \<Rightarrow> (Inl e, s3)
      | (Inr rawStaff, s3) \<Rightarrow> (Inr (rawAnime, rawChars, rawStaff), s3))))"

definition getFullAnimeDetails ::
  "'w platform \<Rightarrow> int \<Rightarrow> 'w state \<Rightarrow> (error + jsval) \<times> 'w state" where
  "getFullAnimeDetails P malId s0 =
     (case fetchRaw P malId s0 of
        (Inl e, s) \<Rightarrow> (Inl e, s)
      | (Inr (rawAnime, rawChars, rawStaff), s) \<Rightarrow>
          (mapAnime (newDate P) rawAnime rawChars rawStaff, s))"

section \<open>What the mapping produces\<close>

text \<open>
  The entries the callbacks build, as functions of the raw entry alone. The
  callbacks either throw or return these (lemmas \<open>company_of_Inr\<close> and the
  like below), which is how the statements about the returned \<^verbatim>\<open>Anime\<close>
  refer to its parts.
\<close>

definition company_entry :: "string \<Rightarrow> jsval \<Rightarrow> jsval" where
  "company_entry T p =
     JObj [(''company'', JObj [(''id'', property p ''mal_id''), (''name'', property p ''name'')]),
           (''type'', JStr T)]"

definition theme_entry :: "string \<Rightarrow> jsval \<Rightarrow> jsval" where
  "theme_entry T t = JObj [(''type'', JStr T), (''text'', t)]"

definition related_entry :: "jsval \<Rightarrow> jsval \<Rightarrow> jsval" where
  "related_entry rel entry =
     JObj [(''relationType'', property rel ''relation''),
           (''relatedAnimeId'', property entry ''mal_id''),
           (''relatedAnimeTitle'', property entry ''name'')]"

definition person_entry :: "jsval \<Rightarrow> jsval" where
  "person_entry x =
     JObj [(''id'', property x ''mal_id''), (''name'', property x ''name''),
           (''image'', image_url_or_null (property x ''images''))]"

definition voiceActor_entry :: "jsval \<Rightarrow> jsval" where
  "voiceActor_entry va =
     JObj [(''language'', property va ''language''),
           (''person'', person_entry (property va ''person''))]"

definition character_entry :: "jsval \<Rightarrow> jsval" where
  "character_entry c =
     JObj [(''role'', property c ''role''),
           (''character'', person_entry (property c ''character'')),
           (''voiceActors'', JArr (map voiceActor_entry (elems (property c ''voice_actors''))))]"

definition staff_entry :: "jsval \<Rightarrow> jsval \<Rightarrow> jsval" where
  "staff_entry s role = JObj [(''role'', role), (''person'', person_entry (property s ''person''))]"

definition genre_entry :: "jsval \<Rightarrow> jsval" where
  "genre_entry g = JObj [(''id'', property g ''mal_id''), (''name'', property g ''name'')]"

text \<open>\<^verbatim>\<open>e.type === 'anime'\<close>, the test of the filter in \<open>relatedEntries\<close>.\<close>

definition is_anime :: "jsval \<Rightarrow> bool" where
  "is_anime e = (property e ''type'' = JStr ''anime'')"

subsection \<open>Themes\<close>

definition opening_themes :: "jsval \<Rightarrow> jsval list" where
  "opening_themes rawAnime =
     map (theme_entry ''Opening'') (elems (optGet (property rawAnime ''theme'') ''openings''))"

definition ending_themes :: "jsval \<Rightarrow> jsval list" where
  "ending_themes rawAnime =
     map (theme_entry ''Ending'') (elems (optGet (property rawAnime ''theme'') ''endings''))"

fun array_or_missing :: "jsval \<Rightarrow> bool" where
  "array_or_missing (JArr xs) = True"
| "array_or_missing JUndefined = True"
| "array_or_missing JNull = True"
| "array_or_missing _ = False"

subsection \<open>Scalar fields\<close>

text \<open>
  The fields that the returned literal copies from \<^verbatim>\<open>rawAnime\<close> with a plain
  property read, as pairs of the name in \<^verbatim>\<open>Anime\<close> and the name in the raw
  payload; the second list is for the fields of \<^verbatim>\<open>stats\<close>.
\<close>

definition scalar_fields :: "(string \<times> string) list" where
  "scalar_fields =
     [(''title'', ''title''), (''titleEnglish'', ''title_english''),
      (''titleJapanese'', ''title_japanese''), (''type'', ''type''), (''status'', ''status''),
      (''episodes'', ''episodes''), (''duration'', ''duration''), (''rating'', ''rating''),
      (''source'', ''source''), (''synopsis'', ''synopsis''), (''background'', ''background'')]"

definition stats_fields :: "(string \<times> string) list" where
  "stats_fields =
     [(''score'', ''score''), (''ranked'', ''rank''), (''popularity'', ''popularity''),
      (''members'', ''members''), (''favorites'', ''favorites'')]"

text \<open>The own property names of an object, as \<^verbatim>\<open>Object.keys\<close> lists them.\<close>

fun own_keys :: "jsval \<Rightarrow> string list" where
  "own_keys (JObj kvs) = map fst kvs"
| "own_keys _ = []"

subsection \<open>Images\<close>

text \<open>
  \<^verbatim>\<open>x.images?.jpg?.image_url\<close>, the upstream image URL of a character or
  person \<open>x\<close>; the characters and persons of the two raw payloads; and the
  image fields of a returned \<^verbatim>\<open>Anime\<close>.
\<close>

definition raw_image_url :: "jsval \<Rightarrow> jsval" where
  "raw_image_url x = optGet (optGet (property x ''images'') ''jpg'') ''image_url''"

definition raw_persons :: "jsval \<Rightarrow> jsval \<Rightarrow> jsval list" where
  "raw_persons rawChars rawStaff =
     concat (map (\<lambda>c. property c ''character''
                       # map (\<lambda>va. property va ''person'') (elems (property c ''voice_actors'')))
                 (elems rawChars))
     @ map (\<lambda>s. property s ''person'') (elems rawStaff)"

definition title_images :: "jsval \<Rightarrow> jsval list" where
  "title_images t =
     concat (map (\<lambda>c. property (property c ''character'') ''image''
                       # map (\<lambda>va. property (property va ''person'') ''image'')
                             (elems (property c ''voiceActors'')))
                 (elems (property t ''characters'')))
     @ map (\<lambda>s. property (property s ''person'') ''image'') (elems (property t ''staff''))"

fun string_or_missing :: "jsval \<Rightarrow> bool" where
  "string_or_missing (JStr s) = True"
| "string_or_missing JUndefined = True"
| "string_or_missing JNull = True"
| "string_or_missing _ = False"

fun null_or_nonempty_string :: "jsval \<Rightarrow> bool" where
  "null_or_nonempty_string JNull = True"
| "null_or_nonempty_string (JStr s) = (s \<noteq> [])"
| "null_or_nonempty_string _ = False"

subsection \<open>Identifiers, collections\<close>

definition nested_ids :: "jsval \<Rightarrow> jsval list" where
  "nested_ids t =
     map (\<lambda>g. property g ''id'') (elems (property t ''genres''))
     @ map (\<lambda>c. property (property c ''company'') ''id'') (elems (property t ''companies''))
     @ map (\<lambda>r. property r ''relatedAnimeId'') (elems (property t ''relatedEntries''))
     @ concat (map (\<lambda>c. property (property c ''character'') ''id''
                         # map (\<lambda>va. property (property va ''person'') ''id'')
                               (elems (property c ''voiceActors'')))
                   (elems (property t ''characters'')))
     @ map (\<lambda>s. property (property s ''person'') ''id'') (elems (property t ''staff''))"

definition upstream_ids :: "jsval \<Rightarrow> jsval \<Rightarrow> jsval \<Rightarrow> jsval list" where
  "upstream_ids rawAnime rawChars rawStaff =
     map (\<lambda>x. property x ''mal_id'')
       (elems (property rawAnime ''genres'')
        @ elems (property rawAnime ''producers'')
        @ elems (property rawAnime ''licensors'')
        @ elems (property rawAnime ''studios'')
        @ concat (map (\<lambda>rel. elems (property rel ''entry'')) (elems (property rawAnime ''relations'')))
        @ raw_persons rawChars rawStaff)"

fun nonneg_integer :: "jsval \<Rightarrow> bool" where
  "nonneg_integer (JNum q) = (0 \<le> q \<and> of_int \<lfloor>q\<rfloor> = q)"
| "nonneg_integer _ = False"

fun is_array :: "jsval \<Rightarrow> bool" where
  "is_array (JArr xs) = True"
| "is_array _ = False"

definition collection_fields :: "string list" where
  "collection_fields =
     [''genres'', ''companies'', ''themes'', ''relatedEntries'', ''characters'', ''staff'']"

subsection \<open>The events of one invocation\<close>

text \<open>
  The events of a call in which all three fetches return, in order; the events
  that a call adds to the trace; and, for a list of events, the number of
  timeouts between each fetch and the one before it.
\<close>

definition schedule :: "int \<Rightarrow> event list" where
  "schedule malId =
     [ConsoleLog (''[FETCHER] Requesting: '' @ ''/anime/'' @ Number_toString malId @ ''/full''),
      Fetch (BASE_URL @ ''/anime/'' @ Number_toString malId @ ''/full''),
      Timeout DELAY_MS,
      ConsoleLog (''[FETCHER] Requesting: '' @ ''/anime/'' @ Number_toString malId @ ''/characters''),
      Fetch (BASE_URL @ ''/anime/'' @ Number_toString malId @ ''/characters''),
      Timeout DELAY_MS,
      ConsoleLog (''[FETCHER] Requesting: '' @ ''/anime/'' @ Number_toString malId @ ''/staff''),
      Fetch (BASE_URL @ ''/anime/'' @ Number_toString malId @ ''/staff'')]"

definition events :: "'w platform \<Rightarrow> int \<Rightarrow> 'w state \<Rightarrow> event list" where
  "events P malId s0 = drop (length (trace s0)) (trace (snd (getFullAnimeDetails P malId s0)))"

fun delays_from :: "nat \<Rightarrow> event list \<Rightarrow> nat list" where
  "delays_from n [] = []"
| "delays_from n (Fetch u # es) = n # delays_from 0 es"
| "delays_from n (Timeout ms # es) = delays_from (Suc n) es"
| "delays_from n (ConsoleLog m # es) = delays_from n es"

definition delays_between :: "event list \<Rightarrow> nat list" where
  "delays_between es = tl (delays_from 0 es)"

text \<open>
  The fetches that one invocation issues, each with the state it is issued in:
  the second is reached when the first returned a payload, the third when the
  second did.
\<close>

definition requests :: "'w platform \<Rightarrow> int \<Rightarrow> 'w state \<Rightarrow> (string \<times> 'w state) list" where
  "requests P malId s0 =
     (''/anime/'' @ Number_toString malId @ ''/full'', s0) #
     (case fetchJikan P (''/anime/'' @ Number_toString malId @ ''/full'') s0 of
        (Inl e, s1) \<Rightarrow> []
      | (Inr rawAnime, s1) \<Rightarrow>
          (''/anime/'' @ Number_toString malId @ ''/characters'', sleep P DELAY_MS s1) #
          (case fetchJikan P (''/anime/'' @ Number_toString malId @ ''/characters'')
                             (sleep P DELAY_MS s1) of
             (Inl e, s2) \<Rightarrow> []
           | (Inr rawChars, s2) \<Rightarrow>
               [(''/anime/'' @ Number_toString malId @ ''/staff'', sleep P DELAY_MS s2)]))"

section \<open>Sample runs\<close>

text \<open>
  An upstream that serves three fixed responses for one title and 404 for any
  other URL, counting the requests it has answered. Its \<^verbatim>\<open>Date\<close> knows the
  one timestamp the samples use and takes every other argument as unparseable,
  as \<^verbatim>\<open>new Date("soon")\<close> is.
\<close>

definition sample_newDate :: "jsval \<Rightarrow> int option" where
  "sample_newDate v =
     (if v = JStr ''2023-09-29T00:00:00+00:00'' then Some 1695945600000 else None)"

definition serving :: "string \<Rightarrow> outcome \<Rightarrow> outcome \<Rightarrow> outcome \<Rightarrow> nat platform" where
  "serving n r1 r2 r3 = \<lparr>
     fetch = (\<lambda>url w.
       (if url = ''https://api.jikan.moe/v4/anime/'' @ n @ ''/full'' then r1
        else if url = ''https://api.jikan.moe/v4/anime/'' @ n @ ''/characters'' then r2
        else if url = ''https://api.jikan.moe/v4/anime/'' @ n @ ''/staff'' then r3
        else Resolved \<lparr>status = 404, statusText = ''Not Found'', json = Inr (JObj [])\<rparr>,
        Suc w)),
     setTimeout = (\<lambda>ms w. w),
     newDate = sample_newDate\<rparr>"

definition envelope :: "jsval \<Rightarrow> outcome" where
  "envelope d = Resolved \<lparr>status = 200, statusText = ''OK'', json = Inr (JObj [(''data'', d)])\<rparr>"

definition start :: "nat state" where
  "start = \<lparr>trace = [], world = 0\<rparr>"

definition sample_anime :: jsval where
  "sample_anime = JObj [
     (''mal_id'', JNum 52991),
     (''title'', JStr ''Sousou no Frieren''),
     (''title_japanese'', JNull),
     (''episodes'', JNum 28),
     (''score'', JNum (939 / 100)),
     (''rank'', JNum 1),
     (''aired'', JObj [(''from'', JStr ''2023-09-29T00:00:00+00:00'')]),
     (''genres'', JArr [JObj [(''mal_id'', JNum 2), (''name'', JStr ''Adventure'')]]),
     (''theme'', JObj [(''openings'', JArr [JStr ''Yuusha'', JStr ''Haru''])]),
     (''relations'', JArr [
        JObj [(''relation'', JStr ''Adaptation''),
              (''entry'', JArr [JObj [(''mal_id'', JNum 126287), (''type'', JStr ''manga''),
                                      (''name'', JStr ''Sousou no Frieren'')]])],
        JObj [(''relation'', JStr ''Sequel''),
              (''entry'', JArr [JObj [(''mal_id'', JNum 59978), (''type'', JStr ''anime''),
                                      (''name'', JStr ''Sousou no Frieren 2nd Season'')]])]]),
     (''producers'', JArr [JObj [(''mal_id'', JNum 17), (''name'', JStr ''Aniplex'')]]),
     (''licensors'', JArr [JObj [(''mal_id'', JNum 1468), (''name'', JStr ''Crunchyroll'')]]),
     (''studios'', JArr [JObj [(''mal_id'', JNum 11), (''name'', JStr ''Madhouse'')]])]"

definition sample_chars :: jsval where
  "sample_chars = JArr [
     JObj [(''character'', JObj [(''mal_id'', JNum 184947), (''name'', JStr ''Frieren''),
              (''images'', JObj [(''jpg'',
                 JObj [(''image_url'', JStr ''https://example.com/frieren.jpg'')])])]),
           (''role'', JStr ''Main''),
           (''voice_actors'', JArr [
              JObj [(''person'', JObj [(''mal_id'', JNum 34785),
                       (''name'', JStr ''Tanezaki, Atsumi''),
                       (''images'', JObj [(''jpg'', JObj [(''image_url'', JStr [])])])]),
                    (''language'', JStr ''Japanese'')]])]]"

definition sample_staff :: jsval where
  "sample_staff = JArr [
     JObj [(''person'', JObj [(''mal_id'', JNum 1), (''name'', JStr ''Evan Call'')]),
           (''positions'', JArr [JStr ''Music'', JStr ''Theme Song Arrangement''])]]"

definition sample_platform :: "nat platform" where
  "sample_platform =
     serving ''52991'' (envelope sample_anime) (envelope sample_chars) (envelope sample_staff)"

text \<open>What \<^verbatim>\<open>getFullAnimeDetails(52991)\<close> returns against \<open>sample_platform\<close>.\<close>

definition sample_title :: jsval where
  "sample_title = JObj [
     (''id'', JNum 52991),
     (''title'', JStr ''Sousou no Frieren''),
     (''titleEnglish'', JUndefined),
     (''titleJapanese'', JNull),
     (''type'', JUndefined),
     (''status'', JUndefined),
     (''episodes'', JNum 28),
     (''duration'', JUndefined),
     (''rating'', JUndefined),
     (''source'', JUndefined),
     (''airedString'', JUndefined),
     (''airedFrom'', JDate (Some 1695945600000)),
     (''airedTo'', JNull),
     (''mainPicture'', JUndefined),
     (''synopsis'', JUndefined),
     (''background'', JUndefined),
     (''stats'', JObj [(''score'', JNum (939 / 100)), (''ranked'', JNum 1),
                       (''popularity'', JUndefined), (''members'', JUndefined),
                       (''favorites'', JUndefined)]),
     (''genres'', JArr [JObj [(''id'', JNum 2), (''name'', JStr ''Adventure'')]]),
     (''companies'', JArr [
        JObj [(''company'', JObj [(''id'', JNum 17), (''name'', JStr ''Aniplex'')]),
              (''type'', JStr ''Producer'')],
        JObj [(''company'', JObj [(''id'', JNum 1468), (''name'', JStr ''Crunchyroll'')]),
              (''type'', JStr ''Licensor'')],
        JObj [(''company'', JObj [(''id'', JNum 11), (''name'', JStr ''Madhouse'')]),
              (''type'', JStr ''Studio'')]]),
     (''themes'', JArr [
        JObj [(''type'', JStr ''Opening''), (''text'', JStr ''Yuusha'')],
        JObj [(''type'', JStr ''Opening''), (''text'', JStr ''Haru'')]]),
     (''relatedEntries'', JArr [
        JObj [(''relationType'', JStr ''Sequel''),
              (''relatedAnimeId'', JNum 59978),
              (''relatedAnimeTitle'', JStr ''Sousou no Frieren 2nd Season'')]]),
     (''characters'', JArr [
        JObj [(''role'', JStr ''Main''),
              (''character'', JObj [(''id'', JNum 184947), (''name'', JStr ''Frieren''),
                                    (''image'', JStr ''https://example.com/frieren.jpg'')]),
              (''voiceActors'', JArr [
                 JObj [(''language'', JStr ''Japanese''),
                       (''person'', JObj [(''id'', JNum 34785),
                                          (''name'', JStr ''Tanezaki, Atsumi''),
                                          (''image'', JNull)])]])]]),
     (''staff'', JArr [
        JObj [(''role'', JStr ''Music''),
              (''person'', JObj [(''id'', JNum 1), (''name'', JStr ''Evan Call''),
                                 (''image'', JNull)])],
        JObj [(''role'', JStr ''Theme Song Arrangement''),
              (''person'', JObj [(''id'', JNum 1), (''name'', JStr ''Evan Call''),
                                 (''image'', JNull)])]])]"

text \<open>
  The same upstream answering the cast request with HTTP 429, and the state in
  which that request is issued.
\<close>

definition too_many_requests :: response where
  "too_many_requests =
     \<lparr>status = 429, statusText = ''Too Many Requests'',
      json = Inr (JObj [(''status'', JNum 429)])\<rparr>"

definition throttled_platform :: "nat platform" where
  "throttled_platform =
     serving ''52991'' (envelope sample_anime) (Resolved too_many_requests) (envelope sample_staff)"

definition waiting :: "nat state" where
  "waiting =
     \<lparr>trace = [ConsoleLog ''[FETCHER] Requesting: /anime/52991/full'',
               Fetch ''https://api.jikan.moe/v4/anime/52991/full'',
               Timeout 1000],
      world = 1\<rparr>"

text \<open>
  A title whose genre carries the id \<open>-1\<close> and whose start date is the string
  \<^verbatim>\<open>"soon"\<close>, with no cast and no staff, and what the call returns for it.
\<close>

definition odd_anime :: jsval where
  "odd_anime = JObj [
     (''mal_id'', JNum 7),
     (''title'', JStr ''Untitled''),
     (''aired'', JObj [(''from'', JStr ''soon'')]),
     (''genres'', JArr [JObj [(''mal_id'', JNum (- 1)), (''name'', JStr ''Adventure'')]]),
     (''producers'', JArr []),
     (''licensors'', JArr []),
     (''studios'', JArr [])]"

definition odd_platform :: "nat platform" where
  "odd_platform = serving ''7'' (envelope odd_anime) (envelope (JArr [])) (envelope (JArr []))"

definition odd_title :: jsval where
  "odd_title = JObj [
     (''id'', JNum 7),
     (''title'', JStr ''Untitled''),
     (''titleEnglish'', JUndefined),
     (''titleJapanese'', JUndefined),
     (''type'', JUndefined),
     (''status'', JUndefined),
     (''episodes'', JUndefined),
     (''duration'', JUndefined),
     (''rating'', JUndefined),
     (''source'', JUndefined),
     (''airedString'', JUndefined),
     (''airedFrom'', JDate None),
     (''airedTo'', JNull),
     (''mainPicture'', JUndefined),
     (''synopsis'', JUndefined),
     (''background'', JUndefined),
     (''stats'', JObj [(''score'', JUndefined), (''ranked'', JUndefined),
                       (''popularity'', JUndefined), (''members'', JUndefined),
                       (''favorites'', JUndefined)]),
     (''genres'', JArr [JObj [(''id'', JNum (- 1)), (''name'', JStr ''Adventure'')]]),
     (''companies'', JArr []),
     (''themes'', JArr []),
     (''relatedEntries'', JArr []),
     (''characters'', JArr []),
     (''staff'', JArr [])]"

section \<open>Errors and array methods\<close>

lemma bindE_Inl [simp]: "bindE (Inl e) f = Inl e"
  by (simp add: bindE_def)

lemma bindE_Inr [simp]: "bindE (Inr x) f = f x"
  by (simp add: bindE_def)

lemma bindE_eq_Inr: "bindE m f = Inr y \<longleftrightarrow> (\<exists>x. m = Inr x \<and> f x = Inr y)"
  by (cases m) simp_all

lemma get_eq_Inr: "get v k = Inr x \<longleftrightarrow> \<not> nullish v \<and> x = property v k"
  by (auto simp: get_def)

text \<open>
  A traversal that returns has applied the callback to every element, in
  order; when the callback's results are a function of the element, the
  traversal is a plain \<open>map\<close> (or \<open>filter\<close>).
\<close>

lemma mapE_eq_Inr_map:
  assumes "mapE f xs = Inr ys" and "\<And>x y. x \<in> set xs \<Longrightarrow> f x = Inr y \<Longrightarrow> y = g x"
  shows "ys = map g xs"
  using assms
proof (induction xs arbitrary: ys)
  case Nil
  then show ?case by simp
next
  case (Cons x xs)
  from Cons.prems(1) obtain y zs where y: "f x = Inr y" and zs: "mapE f xs = Inr zs"
    and ys: "ys = y # zs"
    by (auto split: sum.splits)
  have "zs = map g xs" using Cons.IH [OF zs] Cons.prems(2) by simp
  moreover have "y = g x" using Cons.prems(2) [of x y] y by simp
  ultimately show ?case using ys by simp
qed

lemma mapE_Inr_each:
  "mapE f xs = Inr ys \<Longrightarrow> x \<in> set xs \<Longrightarrow> \<exists>y. f x = Inr y"
  by (induction xs arbitrary: ys) (auto split: sum.splits)

lemma mapE_total:
  "(\<And>x. x \<in> set xs \<Longrightarrow> f x = Inr (g x)) \<Longrightarrow> mapE f xs = Inr (map g xs)"
  by (induction xs) simp_all

lemma filterE_eq_Inr_filter:
  assumes "filterE p xs = Inr ys" and "\<And>x b. x \<in> set xs \<Longrightarrow> p x = Inr b \<Longrightarrow> b = q x"
  shows "ys = filter q xs"
  using assms
proof (induction xs arbitrary: ys)
  case Nil
  then show ?case by simp
next
  case (Cons x xs)
  from Cons.prems(1) obtain b zs where b: "p x = Inr b" and zs: "filterE p xs = Inr zs"
    and ys: "ys = (if b then x # zs else zs)"
    by (auto split: sum.splits)
  have "zs = filter q xs" using Cons.IH [OF zs] Cons.prems(2) by simp
  moreover have "b = q x" using Cons.prems(2) [of x b] b by simp
  ultimately show ?case using ys by simp
qed

lemma Array_map_eq_Inr:
  "Array_map v f = Inr r \<longleftrightarrow> (\<exists>xs ys. v = JArr xs \<and> mapE f xs = Inr ys \<and> r = JArr ys)"
  by (cases v) (auto simp: Array_map_def bindE_eq_Inr)

lemma Array_map_pure:
  assumes "Array_map v f = Inr r" and "\<And>x y. x \<in> set (elems v) \<Longrightarrow> f x = Inr y \<Longrightarrow> y = g x"
  shows "v = JArr (elems v) \<and> r = JArr (map g (elems v))"
proof -
  from assms(1) obtain xs ys where v: "v = JArr xs" and m: "mapE f xs = Inr ys" and r: "r = JArr ys"
    by (auto simp: Array_map_eq_Inr)
  have "ys = map g xs" using mapE_eq_Inr_map [OF m] assms(2) v by simp
  then show ?thesis using v r by simp
qed

lemma Array_map_total:
  assumes "\<And>x. x \<in> set xs \<Longrightarrow> f x = Inr (g x)"
  shows "Array_map (JArr xs) f = Inr (JArr (map g xs))"
  using mapE_total [of xs f g] assms by (simp add: Array_map_def)

lemma Array_filter_pure:
  assumes "Array_filter v p = Inr r" and "\<And>x b. x \<in> set (elems v) \<Longrightarrow> p x = Inr b \<Longrightarrow> b = q x"
  shows "v = JArr (elems v) \<and> r = JArr (filter q (elems v))"
proof -
  from assms(1) obtain xs ys where v: "v = JArr xs" and m: "filterE p xs = Inr ys" and r: "r = JArr ys"
    by (cases v) (auto simp: Array_filter_def bindE_eq_Inr)
  have "ys = filter q xs" using filterE_eq_Inr_filter [OF m] assms(2) v by simp
  then show ?thesis using v r by simp
qed

lemma Array_flatMap_pure:
  assumes "Array_flatMap v f = Inr r"
    and "\<And>x y. x \<in> set (elems v) \<Longrightarrow> f x = Inr y \<Longrightarrow> y = JArr (g x)"
  shows "v = JArr (elems v) \<and> r = JArr (concat (map g (elems v)))"
proof -
  from assms(1) obtain xs ys where v: "v = JArr xs" and m: "mapE f xs = Inr ys"
    and r: "r = JArr (concat (map flat1 ys))"
    by (cases v) (auto simp: Array_flatMap_def bindE_eq_Inr)
  have "ys = map (\<lambda>x. JArr (g x)) xs" using mapE_eq_Inr_map [OF m] assms(2) v by simp
  then have "map flat1 ys = map g xs" by simp
  then show ?thesis using v r by simp
qed

lemma Array_flatMap_each:
  assumes "Array_flatMap v f = Inr r" and "x \<in> set (elems v)"
  shows "\<exists>y. f x = Inr y"
proof -
  from assms(1) obtain xs ys where v: "v = JArr xs" and m: "mapE f xs = Inr ys"
    by (cases v) (auto simp: Array_flatMap_def bindE_eq_Inr)
  show ?thesis using mapE_Inr_each [OF m] assms(2) v by simp
qed

lemma elems_or_else_empty: "elems (or_else x (JArr [])) = elems x"
  by (cases x) (simp_all add: or_else_def)

lemma length_concat_map:
  "length (concat (map (\<lambda>x. map (f x) (g x)) xs)) = sum_list (map (\<lambda>x. length (g x)) xs)"
  by (induction xs) simp_all

section \<open>What each mapping returns\<close>

lemma company_of_Inr: "company_of T p = Inr y \<Longrightarrow> y = company_entry T p"
  by (auto simp: company_of_def company_entry_def bindE_eq_Inr get_eq_Inr)

lemma person_of_Inr: "person_of x = Inr y \<Longrightarrow> y = person_entry x"
  by (auto simp: person_of_def person_entry_def bindE_eq_Inr get_eq_Inr)

lemma genre_of_Inr: "genre_of x = Inr y \<Longrightarrow> y = genre_entry x"
  by (auto simp: genre_of_def genre_entry_def bindE_eq_Inr get_eq_Inr)

lemma theme_of_Inr: "theme_of T t = Inr y \<Longrightarrow> y = theme_entry T t"
  by (auto simp: theme_of_def theme_entry_def)

lemma voiceActor_of_Inr: "voiceActor_of va = Inr y \<Longrightarrow> y = voiceActor_entry va"
  by (auto simp: voiceActor_of_def voiceActor_entry_def bindE_eq_Inr get_eq_Inr dest: person_of_Inr)

lemma companies_Inr:
  assumes "companies a = Inr r"
  shows "r = JArr (map (company_entry ''Producer'') (elems (property a ''producers''))
                 @ map (company_entry ''Licensor'') (elems (property a ''licensors''))
                 @ map (company_entry ''Studio'') (elems (property a ''studios'')))"
    and "property a ''producers'' = JArr (elems (property a ''producers''))"
    and "property a ''licensors'' = JArr (elems (property a ''licensors''))"
    and "property a ''studios'' = JArr (elems (property a ''studios''))"
    and "\<not> nullish a"
proof -
  from assms obtain x y z where
    n: "\<not> nullish a"
    and x: "Array_map (property a ''producers'') (company_of ''Producer'') = Inr x"
    and y: "Array_map (property a ''licensors'') (company_of ''Licensor'') = Inr y"
    and z: "Array_map (property a ''studios'') (company_of ''Studio'') = Inr z"
    and r: "r = JArr (elems x @ elems y @ elems z)"
    by (auto simp: companies_def bindE_eq_Inr get_eq_Inr)
  note px = Array_map_pure [OF x company_of_Inr]
    and py = Array_map_pure [OF y company_of_Inr]
    and pz = Array_map_pure [OF z company_of_Inr]
  show "r = JArr (map (company_entry ''Producer'') (elems (property a ''producers''))
                 @ map (company_entry ''Licensor'') (elems (property a ''licensors''))
                 @ map (company_entry ''Studio'') (elems (property a ''studios'')))"
    using r px py pz by simp
  show "property a ''producers'' = JArr (elems (property a ''producers''))" using px by simp
  show "property a ''licensors'' = JArr (elems (property a ''licensors''))" using py by simp
  show "property a ''studios'' = JArr (elems (property a ''studios''))" using pz by simp
  show "\<not> nullish a" by (rule n)
qed

lemma company_of_total: "\<not> nullish p \<Longrightarrow> company_of T p = Inr (company_entry T p)"
  by (simp add: company_of_def company_entry_def get_def)

lemma companies_total:
  assumes "\<not> nullish a"
    and "property a ''producers'' = JArr ps"
    and "property a ''licensors'' = JArr ls"
    and "property a ''studios'' = JArr ss"
    and "\<forall>p \<in> set (ps @ ls @ ss). \<not> nullish p"
  shows "companies a = Inr (JArr (map (company_entry ''Producer'') ps
                               @ map (company_entry ''Licensor'') ls
                               @ map (company_entry ''Studio'') ss))"
proof -
  have "Array_map (JArr xs) (company_of T) = Inr (JArr (map (company_entry T) xs))"
    if "\<forall>p \<in> set xs. \<not> nullish p" for xs T
    using that by (intro Array_map_total) (simp add: company_of_total)
  then show ?thesis
    using assms by (simp add: companies_def get_def)
qed

lemma themes_Inr:
  assumes "themes a = Inr r"
  shows "r = JArr (map (theme_entry ''Opening'') (elems (optGet (property a ''theme'') ''openings''))
                 @ map (theme_entry ''Ending'') (elems (optGet (property a ''theme'') ''endings'')))"
proof -
  from assms obtain x y where
    x: "Array_map (or_else (optGet (property a ''theme'') ''openings'') (JArr []))
          (theme_of ''Opening'') = Inr x"
    and y: "Array_map (or_else (optGet (property a ''theme'') ''endings'') (JArr []))
          (theme_of ''Ending'') = Inr y"
    and r: "r = JArr (elems x @ elems y)"
    by (auto simp: themes_def bindE_eq_Inr get_eq_Inr)
  show ?thesis
    using r Array_map_pure [OF x theme_of_Inr] Array_map_pure [OF y theme_of_Inr]
    by (simp add: elems_or_else_empty)
qed

lemma themes_total:
  assumes "\<not> nullish a"
    and "array_or_missing (optGet (property a ''theme'') ''openings'')"
    and "array_or_missing (optGet (property a ''theme'') ''endings'')"
  shows "themes a = Inr (JArr (opening_themes a @ ending_themes a))"
proof -
  have *: "Array_map (or_else v (JArr [])) (theme_of T) = Inr (JArr (map (theme_entry T) (elems v)))"
    if "array_or_missing v" for v T
    using that Array_map_total [of _ "theme_of T" "theme_entry T"]
    by (cases v) (simp_all add: or_else_def theme_of_def theme_entry_def)
  show ?thesis
    using assms(1) *[OF assms(2)] *[OF assms(3)]
    by (simp add: themes_def get_def opening_themes_def ending_themes_def)
qed

lemma relatedEntries_Inr:
  assumes "relatedEntries a = Inr r"
  shows "r = JArr (concat (map (\<lambda>rel. map (related_entry rel)
                                  (filter is_anime (elems (property rel ''entry''))))
                          (elems (property a ''relations''))))"
proof (cases "nullish (property a ''relations'')")
  case True
  then have "r = JArr []"
    using assms by (auto simp: relatedEntries_def bindE_eq_Inr get_eq_Inr or_else_def)
  moreover have "elems (property a ''relations'') = []"
    using True by (cases "property a ''relations''") simp_all
  ultimately show ?thesis by simp
next
  case False
  let ?f = "\<lambda>rel.
              bindE (get rel ''entry'') (\<lambda>entry.
              bindE (Array_filter entry (\<lambda>e.
                       bindE (get e ''type'') (\<lambda>t. Inr (t = JStr ''anime'')))) (\<lambda>kept.
                Array_map kept (\<lambda>entry.
                  bindE (get rel ''relation'') (\<lambda>r.
                  bindE (get entry ''mal_id'') (\<lambda>i.
                  bindE (get entry ''name'') (\<lambda>n.
                    Inr (JObj [(''relationType'', r),
                               (''relatedAnimeId'', i),
                               (''relatedAnimeTitle'', n)])))))))"
  from assms False obtain m where
    m: "Array_flatMap (property a ''relations'') ?f = Inr m" and r: "r = or_else m (JArr [])"
    by (auto simp: relatedEntries_def bindE_eq_Inr get_eq_Inr)
  have step: "y = JArr (map (related_entry rel) (filter is_anime (elems (property rel ''entry''))))"
    if "?f rel = Inr y" for rel y
  proof -
    from that obtain kept where
      k: "Array_filter (property rel ''entry'')
            (\<lambda>e. bindE (get e ''type'') (\<lambda>t. Inr (t = JStr ''anime''))) = Inr kept"
      and y: "Array_map kept (\<lambda>entry.
                  bindE (get rel ''relation'') (\<lambda>r.
                  bindE (get entry ''mal_id'') (\<lambda>i.
                  bindE (get entry ''name'') (\<lambda>n.
                    Inr (JObj [(''relationType'', r),
                               (''relatedAnimeId'', i),
                               (''relatedAnimeTitle'', n)]))))) = Inr y"
      by (auto simp: bindE_eq_Inr get_eq_Inr)
    have "kept = JArr (filter is_anime (elems (property rel ''entry'')))"
      using Array_filter_pure [OF k, of is_anime]
      by (auto simp: bindE_eq_Inr get_eq_Inr is_anime_def)
    moreover have "y = JArr (map (related_entry rel) (elems kept))"
      using Array_map_pure [OF y, of "related_entry rel"]
      by (auto simp: bindE_eq_Inr get_eq_Inr related_entry_def)
    ultimately show ?thesis by simp
  qed
  have "m = JArr (concat (map (\<lambda>rel. map (related_entry rel)
                                  (filter is_anime (elems (property rel ''entry''))))
                          (elems (property a ''relations''))))"
    using Array_flatMap_pure [OF m, of "\<lambda>rel. map (related_entry rel)
                                  (filter is_anime (elems (property rel ''entry'')))"] step
    by blast
  then show ?thesis using r by (simp add: or_else_def)
qed

lemma character_of_Inr:
  assumes "character_of c = Inr y"
  shows "y = character_entry c"
proof -
  from assms obtain ch vas where
    ch: "person_of (property c ''character'') = Inr ch"
    and vas: "Array_map (property c ''voice_actors'') voiceActor_of = Inr vas"
    and y: "y = JObj [(''role'', property c ''role''), (''character'', ch), (''voiceActors'', vas)]"
    by (auto simp: character_of_def bindE_eq_Inr get_eq_Inr)
  show ?thesis
    using y person_of_Inr [OF ch] Array_map_pure [OF vas voiceActor_of_Inr]
    by (simp add: character_entry_def)
qed

lemma characters_Inr:
  assumes "characters c = Inr r"
  shows "c = JArr (elems c) \<and> r = JArr (map character_entry (elems c))"
  using Array_map_pure [OF assms [unfolded characters_def] character_of_Inr] by simp

lemma staff_of_Inr:
  assumes "staff_of s = Inr y"
  shows "y = JArr (map (staff_entry s) (elems (property s ''positions'')))"
    and "property s ''positions'' = JArr (elems (property s ''positions''))"
proof -
  let ?f = "\<lambda>role. bindE (get s ''person'') (\<lambda>person.
              bindE (person_of person) (\<lambda>p. Inr (JObj [(''role'', role), (''person'', p)])))"
  from assms have m: "Array_map (property s ''positions'') ?f = Inr y"
    by (auto simp: staff_of_def bindE_eq_Inr get_eq_Inr)
  have "z = staff_entry s role" if "?f role = Inr z" for role z
    using that by (auto simp: bindE_eq_Inr get_eq_Inr staff_entry_def dest: person_of_Inr)
  then have "property s ''positions'' = JArr (elems (property s ''positions''))
      \<and> y = JArr (map (staff_entry s) (elems (property s ''positions'')))"
    using Array_map_pure [OF m, of "staff_entry s"] by blast
  then show "y = JArr (map (staff_entry s) (elems (property s ''positions'')))"
    and "property s ''positions'' = JArr (elems (property s ''positions''))"
    by simp_all
qed

lemma staff_Inr:
  assumes "staff st = Inr r"
  shows "st = JArr (elems st) \<and>
         r = JArr (concat (map (\<lambda>s. map (staff_entry s) (elems (property s ''positions'')))
                               (elems st)))"
  using Array_flatMap_pure [OF assms [unfolded staff_def],
      of "\<lambda>s. map (staff_entry s) (elems (property s ''positions''))"] staff_of_Inr(1)
  by blast

lemma person_of_total: "\<not> nullish x \<Longrightarrow> person_of x = Inr (person_entry x)"
  by (simp add: person_of_def person_entry_def get_def)

lemma staff_of_total:
  assumes "\<not> nullish s" and "property s ''positions'' = JArr ps"
    and "ps \<noteq> [] \<longrightarrow> \<not> nullish (property s ''person'')"
  shows "staff_of s = Inr (JArr (map (staff_entry s) ps))"
proof -
  have "Array_map (JArr ps) (\<lambda>role. bindE (get s ''person'') (\<lambda>person.
              bindE (person_of person) (\<lambda>p. Inr (JObj [(''role'', role), (''person'', p)]))))
        = Inr (JArr (map (staff_entry s) ps))"
  proof (rule Array_map_total)
    fix role assume "role \<in> set ps"
    then have "ps \<noteq> []" by auto
    with assms show "bindE (get s ''person'') (\<lambda>person.
              bindE (person_of person) (\<lambda>p. Inr (JObj [(''role'', role), (''person'', p)])))
          = Inr (staff_entry s role)"
      by (simp add: get_def person_of_total staff_entry_def)
  qed
  then show ?thesis using assms(1,2) by (simp add: staff_of_def get_def)
qed

lemma staff_total:
  assumes "\<forall>s \<in> set ss. \<not> nullish s \<and> is_array (property s ''positions'')
             \<and> (elems (property s ''positions'') \<noteq> [] \<longrightarrow> \<not> nullish (property s ''person''))"
  shows "staff (JArr ss) =
           Inr (JArr (concat (map (\<lambda>s. map (staff_entry s) (elems (property s ''positions''))) ss)))"
proof -
  have each: "staff_of s = Inr (JArr (map (staff_entry s) (elems (property s ''positions''))))"
    if "s \<in> set ss" for s
  proof -
    from that assms have n: "\<not> nullish s" and a: "is_array (property s ''positions'')"
      and p: "elems (property s ''positions'') \<noteq> [] \<longrightarrow> \<not> nullish (property s ''person'')"
      by auto
    from a have "property s ''positions'' = JArr (elems (property s ''positions''))"
      by (cases "property s ''positions''") simp_all
    then show ?thesis using staff_of_total [OF n _ p] by simp
  qed
  have "mapE staff_of ss =
      Inr (map (\<lambda>s. JArr (map (staff_entry s) (elems (property s ''positions'')))) ss)"
    by (rule mapE_total) (rule each)
  then show ?thesis by (simp add: staff_def Array_flatMap_def comp_def)
qed

lemma mapAnime_Inr:
  assumes "mapAnime D a c st = Inr t"
  obtains co th re ch sf ge where
    "companies a = Inr co" and "themes a = Inr th" and "relatedEntries a = Inr re"
    and "characters c = Inr ch" and "staff st = Inr sf"
    and "Array_map (property a ''genres'') genre_of = Inr ge"
    and "t = Anime_entry D a co th re ch sf ge"
  using assms unfolding mapAnime_def bindE_eq_Inr by blast

lemma getFullAnimeDetails_fetched:
  assumes "fst (fetchRaw P malId s0) = Inr (a, c, st)"
  shows "fst (getFullAnimeDetails P malId s0) = mapAnime (newDate P) a c st"
  using assms by (auto simp: getFullAnimeDetails_def split: prod.splits sum.splits)

lemma snd_getFullAnimeDetails: "snd (getFullAnimeDetails P malId s0) = snd (fetchRaw P malId s0)"
  by (simp add: getFullAnimeDetails_def split: prod.splits sum.splits)

text \<open>
  A call whose three fetches returned payloads and which returned \<open>t\<close>: all
  six mappings returned, and \<open>t\<close> is the literal built from them.
\<close>

lemma returned_title:
  assumes "fst (fetchRaw P malId s0) = Inr (a, c, st)"
    and "fst (getFullAnimeDetails P malId s0) = Inr t"
  obtains co th re ch sf ge where
    "companies a = Inr co" and "themes a = Inr th" and "relatedEntries a = Inr re"
    and "characters c = Inr ch" and "staff st = Inr sf"
    and "Array_map (property a ''genres'') genre_of = Inr ge"
    and "t = Anime_entry (newDate P) a co th re ch sf ge"
proof -
  have "mapAnime (newDate P) a c st = Inr t"
    using getFullAnimeDetails_fetched [OF assms(1)] assms(2) by simp
  then show ?thesis by (rule mapAnime_Inr) (rule that)
qed

lemma Anime_entry_id: "property (Anime_entry D a co th re ch sf ge) ''id'' = property a ''mal_id''"
  by (simp add: Anime_entry_def)

lemma Anime_entry_genres: "property (Anime_entry D a co th re ch sf ge) ''genres'' = ge"
  by (simp add: Anime_entry_def)

lemma Anime_entry_companies: "property (Anime_entry D a co th re ch sf ge) ''companies'' = co"
  by (simp add: Anime_entry_def)

lemma Anime_entry_themes: "property (Anime_entry D a co th re ch sf ge) ''themes'' = th"
  by (simp add: Anime_entry_def)

lemma Anime_entry_relatedEntries: "property (Anime_entry D a co th re ch sf ge) ''relatedEntries'' = re"
  by (simp add: Anime_entry_def)

lemma Anime_entry_characters: "property (Anime_entry D a co th re ch sf ge) ''characters'' = ch"
  by (simp add: Anime_entry_def)

lemma Anime_entry_staff: "property (Anime_entry D a co th re ch sf ge) ''staff'' = sf"
  by (simp add: Anime_entry_def)

lemma person_entry_image:
  "property (person_entry x) ''image'' = or_else (raw_image_url x) JNull"
  by (simp add: person_entry_def image_url_or_null_def raw_image_url_def)

lemma character_entry_images:
  "property (property (character_entry c) ''character'') ''image''
     # map (\<lambda>va. property (property va ''person'') ''image'')
           (elems (property (character_entry c) ''voiceActors''))
   = map (\<lambda>x. or_else (raw_image_url x) JNull)
       (property c ''character''
          # map (\<lambda>va. property va ''person'') (elems (property c ''voice_actors'')))"
  by (simp add: character_entry_def voiceActor_entry_def person_entry_image comp_def)

lemma staff_entry_image:
  "property (property (staff_entry s role) ''person'') ''image''
     = or_else (raw_image_url (property s ''person'')) JNull"
  by (simp add: staff_entry_def person_entry_image)

lemma title_images_sources:
  assumes "fst (fetchRaw P malId s0) = Inr (rawAnime, rawChars, rawStaff)"
    and "fst (getFullAnimeDetails P malId s0) = Inr t"
    and "img \<in> set (title_images t)"
  shows "\<exists>x \<in> set (raw_persons rawChars rawStaff). img = or_else (raw_image_url x) JNull"
proof -
  from assms(1,2) obtain co th re ch sf ge where ch: "characters rawChars = Inr ch"
    and sf: "staff rawStaff = Inr sf"
    and t: "t = Anime_entry (newDate P) rawAnime co th re ch sf ge"
    by (rule returned_title)
  have tc: "elems (property t ''characters'') = map character_entry (elems rawChars)"
    using characters_Inr [OF ch] t by (simp only: Anime_entry_characters elems.simps)
  have ts: "elems (property t ''staff'') =
         concat (map (\<lambda>s. map (staff_entry s) (elems (property s ''positions''))) (elems rawStaff))"
    using staff_Inr [OF sf] t by (simp only: Anime_entry_staff elems.simps)
  from assms(3) consider
    (char) c where "c \<in> set (elems rawChars)"
      "img \<in> set (property (property (character_entry c) ''character'') ''image''
                   # map (\<lambda>va. property (property va ''person'') ''image'')
                         (elems (property (character_entry c) ''voiceActors'')))"
    | (staff) s role where "s \<in> set (elems rawStaff)"
      "img = property (property (staff_entry s role) ''person'') ''image''"
    unfolding title_images_def tc ts by auto
  then show ?thesis
  proof cases
    case char
    from char(2) obtain x where
      x: "x \<in> set (property c ''character''
                   # map (\<lambda>va. property va ''person'') (elems (property c ''voice_actors'')))"
      and img: "img = or_else (raw_image_url x) JNull"
      unfolding character_entry_images by auto
    from x char(1) have "x \<in> set (raw_persons rawChars rawStaff)"
      unfolding raw_persons_def by auto
    with img show ?thesis by blast
  next
    case staff
    have "property s ''person'' \<in> set (raw_persons rawChars rawStaff)"
      using staff(1) unfolding raw_persons_def by auto
    with staff(2) show ?thesis unfolding staff_entry_image by blast
  qed
qed

lemma or_else_null_cases:
  "or_else v JNull \<noteq> JStr [] \<and> or_else v JNull \<noteq> JUndefined
   \<and> (string_or_missing v \<longrightarrow> null_or_nonempty_string (or_else v JNull))"
  by (cases v) (simp_all add: or_else_def)

lemma person_entry_id: "property (person_entry x) ''id'' = property x ''mal_id''"
  by (simp add: person_entry_def)

lemma character_entry_ids:
  "property (property (character_entry c) ''character'') ''id''
     # map (\<lambda>va. property (property va ''person'') ''id'')
           (elems (property (character_entry c) ''voiceActors''))
   = map (\<lambda>x. property x ''mal_id'')
       (property c ''character''
          # map (\<lambda>va. property va ''person'') (elems (property c ''voice_actors'')))"
  by (simp add: character_entry_def voiceActor_entry_def person_entry_id comp_def)

lemma staff_entry_id:
  "property (property (staff_entry s role) ''person'') ''id''
     = property (property s ''person'') ''mal_id''"
  by (simp add: staff_entry_def person_entry_id)

lemma nested_ids_upstream:
  assumes "fst (fetchRaw P malId s0) = Inr (rawAnime, rawChars, rawStaff)"
    and "fst (getFullAnimeDetails P malId s0) = Inr t"
  shows "set (nested_ids t) \<subseteq> set (upstream_ids rawAnime rawChars rawStaff)"
proof -
  from assms obtain co th re ch sf ge where co: "companies rawAnime = Inr co"
    and re: "relatedEntries rawAnime = Inr re"
    and ch: "characters rawChars = Inr ch"
    and sf: "staff rawStaff = Inr sf"
    and ge: "Array_map (property rawAnime ''genres'') genre_of = Inr ge"
    and t: "t = Anime_entry (newDate P) rawAnime co th re ch sf ge"
    by (rule returned_title)
  have tg: "elems (property t ''genres'') = map genre_entry (elems (property rawAnime ''genres''))"
    using Array_map_pure [OF ge genre_of_Inr] t by (simp only: Anime_entry_genres elems.simps)
  have tco: "elems (property t ''companies'') =
      map (company_entry ''Producer'') (elems (property rawAnime ''producers''))
      @ map (company_entry ''Licensor'') (elems (property rawAnime ''licensors''))
      @ map (company_entry ''Studio'') (elems (property rawAnime ''studios''))"
    using companies_Inr(1) [OF co] t by (simp only: Anime_entry_companies elems.simps)
  have tr: "elems (property t ''relatedEntries'') =
      concat (map (\<lambda>rel. map (related_entry rel) (filter is_anime (elems (property rel ''entry''))))
                  (elems (property rawAnime ''relations'')))"
    using relatedEntries_Inr [OF re] t by (simp only: Anime_entry_relatedEntries elems.simps)
  have tc: "elems (property t ''characters'') = map character_entry (elems rawChars)"
    using characters_Inr [OF ch] t by (simp only: Anime_entry_characters elems.simps)
  have ts: "elems (property t ''staff'') =
         concat (map (\<lambda>s. map (staff_entry s) (elems (property s ''positions''))) (elems rawStaff))"
    using staff_Inr [OF sf] t by (simp only: Anime_entry_staff elems.simps)
  have g: "set (map (\<lambda>g. property g ''id'') (elems (property t ''genres'')))
      \<subseteq> set (upstream_ids rawAnime rawChars rawStaff)"
    unfolding tg upstream_ids_def by (auto simp: genre_entry_def)
  have c: "set (map (\<lambda>c. property (property c ''company'') ''id'') (elems (property t ''companies'')))
      \<subseteq> set (upstream_ids rawAnime rawChars rawStaff)"
    unfolding tco upstream_ids_def by (auto simp: company_entry_def)
  have r: "set (map (\<lambda>r. property r ''relatedAnimeId'') (elems (property t ''relatedEntries'')))
      \<subseteq> set (upstream_ids rawAnime rawChars rawStaff)"
    unfolding tr upstream_ids_def by (auto simp: related_entry_def)
  have p: "set (concat (map (\<lambda>c. property (property c ''character'') ''id''
                         # map (\<lambda>va. property (property va ''person'') ''id'')
                               (elems (property c ''voiceActors'')))
                   (elems (property t ''characters''))))
      \<subseteq> set (upstream_ids rawAnime rawChars rawStaff)"
  proof
    fix i
    assume "i \<in> set (concat (map (\<lambda>c. property (property c ''character'') ''id''
                         # map (\<lambda>va. property (property va ''person'') ''id'')
                               (elems (property c ''voiceActors'')))
                   (elems (property t ''characters''))))"
    then obtain c where c: "c \<in> set (elems rawChars)"
      and i: "i \<in> set (property (property (character_entry c) ''character'') ''id''
                   # map (\<lambda>va. property (property va ''person'') ''id'')
                         (elems (property (character_entry c) ''voiceActors'')))"
      unfolding tc by auto
    from i obtain x where
      x: "x \<in> set (property c ''character''
                   # map (\<lambda>va. property va ''person'') (elems (property c ''voice_actors'')))"
      and ix: "i = property x ''mal_id''"
      unfolding character_entry_ids by auto
    from x c have "x \<in> set (raw_persons rawChars rawStaff)"
      unfolding raw_persons_def by auto
    then show "i \<in> set (upstream_ids rawAnime rawChars rawStaff)"
      unfolding upstream_ids_def ix by simp
  qed
  have s: "set (map (\<lambda>s. property (property s ''person'') ''id'') (elems (property t ''staff'')))
      \<subseteq> set (upstream_ids rawAnime rawChars rawStaff)"
  proof
    fix i
    assume "i \<in> set (map (\<lambda>s. property (property s ''person'') ''id'') (elems (property t ''staff'')))"
    then obtain s role where s: "s \<in> set (elems rawStaff)"
      and i: "i = property (property (staff_entry s role) ''person'') ''id''"
      unfolding ts by auto
    have "property s ''person'' \<in> set (raw_persons rawChars rawStaff)"
      using s unfolding raw_persons_def by auto
    then show "i \<in> set (upstream_ids rawAnime rawChars rawStaff)"
      unfolding upstream_ids_def i staff_entry_id by simp
  qed
  show ?thesis
    unfolding nested_ids_def using g c r p s by (simp only: set_append Un_subset_iff)
qed

lemma collections_arrays:
  assumes "fst (fetchRaw P malId s0) = Inr (rawAnime, rawChars, rawStaff)"
    and "fst (getFullAnimeDetails P malId s0) = Inr t"
  shows "list_all (\<lambda>k. is_array (property t k)) collection_fields"
    and "\<forall>c \<in> set (elems (property t ''characters'')). is_array (property c ''voiceActors'')"
proof -
  from assms obtain co th re ch sf ge where co: "companies rawAnime = Inr co"
    and th: "themes rawAnime = Inr th"
    and re: "relatedEntries rawAnime = Inr re"
    and ch: "characters rawChars = Inr ch"
    and sf: "staff rawStaff = Inr sf"
    and ge: "Array_map (property rawAnime ''genres'') genre_of = Inr ge"
    and t: "t = Anime_entry (newDate P) rawAnime co th re ch sf ge"
    by (rule returned_title)
  have "is_array ge" using ge by (auto simp: Array_map_eq_Inr)
  moreover have "is_array co" using companies_Inr(1) [OF co] by simp
  moreover have "is_array th" using themes_Inr [OF th] by simp
  moreover have "is_array re" using relatedEntries_Inr [OF re] by simp
  moreover have "is_array ch" using characters_Inr [OF ch] by simp
  moreover have "is_array sf" using staff_Inr [OF sf] by simp
  ultimately show "list_all (\<lambda>k. is_array (property t k)) collection_fields"
    unfolding t collection_fields_def
    by (simp add: Anime_entry_genres Anime_entry_companies Anime_entry_themes
        Anime_entry_relatedEntries Anime_entry_characters Anime_entry_staff)
  have tc: "elems (property t ''characters'') = map character_entry (elems rawChars)"
    using characters_Inr [OF ch] t by (simp only: Anime_entry_characters elems.simps)
  show "\<forall>c \<in> set (elems (property t ''characters'')). is_array (property c ''voiceActors'')"
    unfolding tc by (auto simp: character_entry_def)
qed

section \<open>The decimal rendering\<close>

text \<open>
  The message of the error of \<^verbatim>\<open>fetchJikan\<close> determines the status code and
  the status text it was built from: the code is the run of digits before the
  first colon.
\<close>

lemma digit_noteq_colon: "n < 10 \<Longrightarrow> ''0123456789'' ! n \<noteq> CHR '':''"
proof -
  assume "n < 10"
  then have "n \<in> {0, 1, 2, 3, 4, 5, 6, 7, 8, 9}" by auto
  then show ?thesis by auto
qed

lemma digit_inj:
  assumes "m < 10" and "n < 10" and "''0123456789'' ! m = ''0123456789'' ! n"
  shows "m = n"
proof -
  have "distinct ''0123456789''" by simp
  moreover have "m < length ''0123456789''" and "n < length ''0123456789''"
    using assms(1,2) by simp_all
  ultimately show ?thesis using assms(3) by (simp only: nth_eq_iff_index_eq)
qed

lemma decimal_nonempty: "decimal n \<noteq> []"
  by (subst decimal.simps) simp

lemma decimal_no_colon: "CHR '':'' \<notin> set (decimal n)"
proof (induction n rule: decimal.induct)
  case (1 n)
  show ?case
  proof (cases "n < 10")
    case True
    then show ?thesis
      using digit_noteq_colon [of n] by (subst decimal.simps) auto
  next
    case False
    moreover have "n mod 10 < 10" by simp
    ultimately show ?thesis
      using 1 digit_noteq_colon [of "n mod 10"] by (subst decimal.simps) auto
  qed
qed

lemma decimal_inj: "decimal m = decimal n \<Longrightarrow> m = n"
proof (induction m arbitrary: n rule: decimal.induct)
  case (1 m)
  show ?case
  proof (cases "m < 10")
    case small_m: True
    show ?thesis
    proof (cases "n < 10")
      case True
      with small_m "1.prems" show ?thesis
        by (simp add: decimal.simps [of m] decimal.simps [of n] digit_inj)
    next
      case False
      with small_m "1.prems" decimal_nonempty [of "n div 10"] show ?thesis
        by (simp add: decimal.simps [of m] decimal.simps [of n] Cons_eq_append_conv)
    qed
  next
    case big_m: False
    show ?thesis
    proof (cases "n < 10")
      case True
      with big_m "1.prems" decimal_nonempty [of "m div 10"] show ?thesis
        by (simp add: decimal.simps [of m] decimal.simps [of n] append_eq_Cons_conv)
    next
      case False
      with big_m "1.prems" have d: "decimal (m div 10) = decimal (n div 10)"
        and r: "''0123456789'' ! (m mod 10) = ''0123456789'' ! (n mod 10)"
        by (simp_all add: decimal.simps [of m] decimal.simps [of n])
      have "m div 10 = n div 10" using "1.IH" [OF big_m d] .
      moreover have "m mod 10 = n mod 10" using digit_inj [OF _ _ r] by simp
      ultimately show ?thesis by (metis div_mult_mod_eq)
    qed
  qed
qed

lemma status_line_inj:
  assumes "decimal m @ '': '' @ a = decimal n @ '': '' @ b"
  shows "m = n \<and> a = b"
proof -
  have "takeWhile (\<lambda>c. c \<noteq> CHR '':'') (decimal k @ '': '' @ x) = decimal k" for k x
    using decimal_no_colon [of k] by (auto simp: takeWhile_tail)
  then have "decimal m = decimal n" using assms by metis
  then have "m = n" by (rule decimal_inj)
  then show ?thesis using assms by simp
qed

lemma error_message_inj:
  assumes "''Jikan API Error '' @ Number_toString (int m) @ '': '' @ a
         = ''Jikan API Error '' @ Number_toString (int n) @ '': '' @ b"
  shows "m = n \<and> a = b"
  using assms status_line_inj [of m a n b] by (simp add: Number_toString_def)

section \<open>The trace of the fetcher\<close>

lemma fetchJikan_trace:
  "trace (snd (fetchJikan P ep s)) =
     trace s @ [ConsoleLog (''[FETCHER] Requesting: '' @ ep), Fetch (BASE_URL @ ep)]"
  by (simp add: fetchJikan_def Let_def split: prod.splits outcome.splits)

lemma sleep_trace: "trace (sleep P ms s) = trace s @ [Timeout ms]"
  by (simp add: sleep_def)

lemma fetchJikan_non_success:
  assumes "fst (fetch P (BASE_URL @ ep) (world s)) = Resolved res" and "\<not> ok res"
  shows "fst (fetchJikan P ep s) =
           Inl (Error (''Jikan API Error '' @ Number_toString (int (status res)) @ '': ''
                       @ statusText res))"
proof -
  obtain out w where f: "fetch P (BASE_URL @ ep) (world s) = (out, w)"
    by (cases "fetch P (BASE_URL @ ep) (world s)")
  with assms(1) have "out = Resolved res" by simp
  with f assms(2) show ?thesis by (simp add: fetchJikan_def)
qed

lemma request_failure_aborts:
  assumes "(ep, s) \<in> set (requests P malId s0)" and "fst (fetchJikan P ep s) = Inl e"
  shows "getFullAnimeDetails P malId s0 = fetchJikan P ep s"
proof -
  have "fetchRaw P malId s0 = (Inl e, snd (fetchJikan P ep s))"
    using assms
    by (auto simp: requests_def fetchRaw_def split: prod.splits sum.splits)
  then have "getFullAnimeDetails P malId s0 = (Inl e, snd (fetchJikan P ep s))"
    by (simp add: getFullAnimeDetails_def)
  then show ?thesis
    using assms(2) by (simp add: prod_eq_iff)
qed

lemma fetchRaw_trace_success:
  assumes "fst (fetchRaw P malId s0) = Inr raw"
  shows "trace (snd (fetchRaw P malId s0)) = trace s0 @ schedule malId"
proof -
  let ?e1 = "''/anime/'' @ Number_toString malId @ ''/full''"
  let ?e2 = "''/anime/'' @ Number_toString malId @ ''/characters''"
  let ?e3 = "''/anime/'' @ Number_toString malId @ ''/staff''"
  obtain r1 s1 where f1: "fetchJikan P ?e1 s0 = (r1, s1)" by (cases "fetchJikan P ?e1 s0")
  obtain r2 s2 where f2: "fetchJikan P ?e2 (sleep P DELAY_MS s1) = (r2, s2)"
    by (cases "fetchJikan P ?e2 (sleep P DELAY_MS s1)")
  obtain r3 s3 where f3: "fetchJikan P ?e3 (sleep P DELAY_MS s2) = (r3, s3)"
    by (cases "fetchJikan P ?e3 (sleep P DELAY_MS s2)")
  have t1: "trace s1 = trace s0 @ [ConsoleLog (''[FETCHER] Requesting: '' @ ?e1), Fetch (BASE_URL @ ?e1)]"
    using fetchJikan_trace [of P ?e1 s0] f1 by simp
  have t2: "trace s2 = trace s1 @ [Timeout DELAY_MS, ConsoleLog (''[FETCHER] Requesting: '' @ ?e2),
                                   Fetch (BASE_URL @ ?e2)]"
    using fetchJikan_trace [of P ?e2 "sleep P DELAY_MS s1"] f2 by (simp add: sleep_trace)
  have t3: "trace s3 = trace s2 @ [Timeout DELAY_MS, ConsoleLog (''[FETCHER] Requesting: '' @ ?e3),
                                   Fetch (BASE_URL @ ?e3)]"
    using fetchJikan_trace [of P ?e3 "sleep P DELAY_MS s2"] f3 by (simp add: sleep_trace)
  have "snd (fetchRaw P malId s0) = s3"
    using assms f1 f2 f3 by (auto simp: fetchRaw_def split: sum.splits)
  then show ?thesis using t1 t2 t3 by (simp add: schedule_def)
qed

lemma fetchRaw_trace_prefix:
  "\<exists>es. trace (snd (fetchRaw P malId s0)) = trace s0 @ es \<and> prefix es (schedule malId)"
proof -
  let ?e1 = "''/anime/'' @ Number_toString malId @ ''/full''"
  let ?e2 = "''/anime/'' @ Number_toString malId @ ''/characters''"
  let ?e3 = "''/anime/'' @ Number_toString malId @ ''/staff''"
  obtain r1 s1 where f1: "fetchJikan P ?e1 s0 = (r1, s1)" by (cases "fetchJikan P ?e1 s0")
  obtain r2 s2 where f2: "fetchJikan P ?e2 (sleep P DELAY_MS s1) = (r2, s2)"
    by (cases "fetchJikan P ?e2 (sleep P DELAY_MS s1)")
  obtain r3 s3 where f3: "fetchJikan P ?e3 (sleep P DELAY_MS s2) = (r3, s3)"
    by (cases "fetchJikan P ?e3 (sleep P DELAY_MS s2)")
  have t1: "trace s1 = trace s0 @ take 2 (schedule malId)"
    using fetchJikan_trace [of P ?e1 s0] f1 by (simp add: schedule_def)
  have t2: "trace s2 = trace s0 @ take 5 (schedule malId)"
    using fetchJikan_trace [of P ?e2 "sleep P DELAY_MS s1"] f2 t1
    by (simp add: sleep_trace schedule_def)
  have t3: "trace s3 = trace s0 @ take 8 (schedule malId)"
    using fetchJikan_trace [of P ?e3 "sleep P DELAY_MS s2"] f3 t2
    by (simp add: sleep_trace schedule_def)
  have "snd (fetchRaw P malId s0) \<in> {s1, s2, s3}"
    using f1 f2 f3 by (auto simp: fetchRaw_def split: sum.splits)
  then have "\<exists>k. trace (snd (fetchRaw P malId s0)) = trace s0 @ take k (schedule malId)"
    using t1 t2 t3 by auto
  then show ?thesis using take_is_prefix by blast
qed

section \<open>The sample runs, evaluated\<close>

lemma Number_toString_52991: "Number_toString 52991 = ''52991''"
  by (simp add: Number_toString_def decimal.simps)

lemma Number_toString_7: "Number_toString 7 = ''7''"
  by (simp add: Number_toString_def decimal.simps)

lemma Number_toString_429: "Number_toString 429 = ''429''"
  by (simp add: Number_toString_def decimal.simps)

lemma fetchJikan_serving:
  "fetchJikan (serving n r1 r2 r3) ep s =
     (let out = (if BASE_URL @ ep = ''https://api.jikan.moe/v4/anime/'' @ n @ ''/full'' then r1
        else if BASE_URL @ ep = ''https://api.jikan.moe/v4/anime/'' @ n @ ''/characters'' then r2
        else if BASE_URL @ ep = ''https://api.jikan.moe/v4/anime/'' @ n @ ''/staff'' then r3
        else Resolved \<lparr>status = 404, statusText = ''Not Found'', json = Inr (JObj [])\<rparr>);
          s' = \<lparr>trace = trace s @ [ConsoleLog (''[FETCHER] Requesting: '' @ ep),
                                     Fetch (BASE_URL @ ep)],
                world = Suc (world s)\<rparr>
      in case out of
           Rejected e \<Rightarrow> (Inl e, s')
         | Resolved res \<Rightarrow>
             if \<not> ok res
             then (Inl (Error (''Jikan API Error '' @ Number_toString (int (status res))
                               @ '': '' @ statusText res)), s')
             else (bindE (json res) (\<lambda>j. get j ''data''), s'))"
  by (simp add: fetchJikan_def serving_def Let_def)

lemma setTimeout_serving: "setTimeout (serving n r1 r2 r3) ms w = w"
  by (simp add: serving_def)

lemma sample_fetch:
  "fst (fetchRaw sample_platform 52991 s) = Inr (sample_anime, sample_chars, sample_staff)"
  by (simp add: fetchRaw_def sample_platform_def fetchJikan_serving Number_toString_52991
      BASE_URL_def envelope_def ok_def get_def sleep_def)

lemma sample_map:
  "mapAnime sample_newDate sample_anime sample_chars sample_staff = Inr sample_title"
  by (simp add: mapAnime_def Anime_entry_def companies_def themes_def relatedEntries_def
      characters_def staff_def company_of_def theme_of_def person_of_def voiceActor_of_def character_of_def staff_of_def
      genre_of_def Array_map_def Array_filter_def Array_flatMap_def get_def optGet_def or_else_def
      image_url_or_null_def date_or_null_def sample_anime_def sample_chars_def sample_staff_def
      sample_title_def sample_newDate_def)

lemma sample_run:
  "fst (getFullAnimeDetails sample_platform 52991 s) = Inr sample_title"
  unfolding getFullAnimeDetails_fetched [OF sample_fetch]
  by (simp add: sample_map sample_platform_def serving_def)

lemma odd_fetch:
  "fst (fetchRaw odd_platform 7 s) = Inr (odd_anime, JArr [], JArr [])"
  by (simp add: fetchRaw_def odd_platform_def fetchJikan_serving Number_toString_7
      BASE_URL_def envelope_def ok_def get_def sleep_def)

lemma odd_map:
  "mapAnime sample_newDate odd_anime (JArr []) (JArr []) = Inr odd_title"
  by (simp add: mapAnime_def Anime_entry_def companies_def themes_def relatedEntries_def
      characters_def staff_def company_of_def theme_of_def genre_of_def Array_map_def Array_flatMap_def get_def optGet_def
      or_else_def date_or_null_def odd_anime_def odd_title_def sample_newDate_def)

lemma odd_run:
  "fst (getFullAnimeDetails odd_platform 7 s) = Inr odd_title"
  unfolding getFullAnimeDetails_fetched [OF odd_fetch]
  by (simp add: odd_map odd_platform_def serving_def)

lemma sample_events: "events sample_platform 52991 start = schedule 52991"
  using fetchRaw_trace_success [OF sample_fetch, of start]
  by (simp add: events_def snd_getFullAnimeDetails start_def)

lemma schedule_52991:
  "schedule 52991 =
     [ConsoleLog ''[FETCHER] Requesting: /anime/52991/full'',
      Fetch ''https://api.jikan.moe/v4/anime/52991/full'',
      Timeout 1000,
      ConsoleLog ''[FETCHER] Requesting: /anime/52991/characters'',
      Fetch ''https://api.jikan.moe/v4/anime/52991/characters'',
      Timeout 1000,
      ConsoleLog ''[FETCHER] Requesting: /anime/52991/staff'',
      Fetch ''https://api.jikan.moe/v4/anime/52991/staff'']"
  by (simp add: schedule_def Number_toString_52991 BASE_URL_def DELAY_MS_def)

section \<open>The claims\<close>

text \<open>
  In what follows a call \<open>getFullAnimeDetails P malId s0\<close> has fetched the raw
  payloads \<open>rawAnime\<close>, \<open>rawChars\<close> and \<open>rawStaff\<close> when
  \<open>fst (fetchRaw P malId s0) = Inr (rawAnime, rawChars, rawStaff)\<close>, and has
  returned the title \<open>t\<close> when \<open>fst (getFullAnimeDetails P malId s0) = Inr t\<close>.
\<close>

subsection \<open>C1: order of the fetches and the delays between them\<close>

text \<open>
  C1 says that the three fetches occur in the order metadata, characters,
  staff, with one delay between the first and the second and none between the
  second and the third. The code awaits \<^verbatim>\<open>sleep(DELAY_MS)\<close> after the
  characters fetch as well: against the sample upstream the call's events are
  the eight of \<open>schedule 52991\<close>, with one timeout before the second fetch and
  one before the third, where the claim has one and none.
\<close>

theorem single_delay_counterexample:
  "events sample_platform 52991 start =
     [ConsoleLog ''[FETCHER] Requesting: /anime/52991/full'',
      Fetch ''https://api.jikan.moe/v4/anime/52991/full'',
      Timeout 1000,
      ConsoleLog ''[FETCHER] Requesting: /anime/52991/characters'',
      Fetch ''https://api.jikan.moe/v4/anime/52991/characters'',
      Timeout 1000,
      ConsoleLog ''[FETCHER] Requesting: /anime/52991/staff'',
      Fetch ''https://api.jikan.moe/v4/anime/52991/staff'']
   \<and> delays_between (events sample_platform 52991 start) = [1, 1]
   \<and> delays_between (events sample_platform 52991 start) \<noteq> [1, 0]"
  by (simp add: sample_events schedule_52991 delays_between_def)

text \<open>
  C1 as amended: every invocation adds to the trace a prefix of the fixed
  sequence request metadata, delay, request characters, delay, request staff
  (each request preceded by its log line), and an invocation whose three
  fetches return payloads adds the whole sequence: the fetches occur in the
  order metadata, characters, staff, with exactly one delay of \<open>DELAY_MS\<close>
  before the second fetch and exactly one before the third.
\<close>

theorem delay_before_each_later_fetch:
  "trace (snd (getFullAnimeDetails P malId s0)) = trace s0 @ events P malId s0
   \<and> prefix (events P malId s0) (schedule malId)
   \<and> (fst (fetchRaw P malId s0) = Inr raw
        \<longrightarrow> events P malId s0 = schedule malId
          \<and> delays_between (events P malId s0) = [1, 1])"
proof -
  from fetchRaw_trace_prefix [of P malId s0] obtain es where
    es: "trace (snd (fetchRaw P malId s0)) = trace s0 @ es" and p: "prefix es (schedule malId)"
    by blast
  have ev: "events P malId s0 = es"
    by (simp add: events_def snd_getFullAnimeDetails es)
  have ok: "events P malId s0 = schedule malId \<and> delays_between (events P malId s0) = [1, 1]"
    if "fst (fetchRaw P malId s0) = Inr raw"
  proof -
    have "events P malId s0 = schedule malId"
      using fetchRaw_trace_success [OF that]
      by (simp add: events_def snd_getFullAnimeDetails)
    then show ?thesis by (simp add: schedule_def delays_between_def)
  qed
  have "trace (snd (getFullAnimeDetails P malId s0)) = trace s0 @ events P malId s0"
    using es ev by (simp add: snd_getFullAnimeDetails)
  moreover have "prefix (events P malId s0) (schedule malId)"
    using p ev by simp
  ultimately show ?thesis using ok by blast
qed

theorem delay_before_each_later_fetch_witness:
  "fst (fetchRaw sample_platform 52991 start) = Inr (sample_anime, sample_chars, sample_staff)
   \<and> trace (snd (getFullAnimeDetails sample_platform 52991 start))
       = trace start @ events sample_platform 52991 start
   \<and> prefix (events sample_platform 52991 start) (schedule 52991)
   \<and> events sample_platform 52991 start = schedule 52991
   \<and> delays_between (events sample_platform 52991 start) = [1, 1]"
  using delay_before_each_later_fetch
    [of sample_platform 52991 start "(sample_anime, sample_chars, sample_staff)"]
    sample_fetch [of start]
  by blast

subsection \<open>C2: absent scalar fields\<close>

text \<open>
  C2 says that a scalar field absent from the raw metadata is \<^verbatim>\<open>null\<close> in the
  returned title, never \<^verbatim>\<open>undefined\<close>. The returned literal copies the field
  with a plain property read, and the read of an absent property is
  \<^verbatim>\<open>undefined\<close>: the sample metadata has no \<^verbatim>\<open>title_english\<close>, and the
  title's \<^verbatim>\<open>titleEnglish\<close> is \<^verbatim>\<open>undefined\<close>, not \<^verbatim>\<open>null\<close>.
\<close>

theorem absent_scalar_counterexample:
  "fst (fetchRaw sample_platform 52991 start) = Inr (sample_anime, sample_chars, sample_staff)
   \<and> ''title_english'' \<notin> set (own_keys sample_anime)
   \<and> fst (getFullAnimeDetails sample_platform 52991 start) = Inr sample_title
   \<and> property sample_title ''titleEnglish'' = JUndefined
   \<and> property sample_title ''titleEnglish'' \<noteq> JNull"
proof -
  have "''title_english'' \<notin> set (own_keys sample_anime)"
    by (simp add: sample_anime_def)
  moreover have "property sample_title ''titleEnglish'' = JUndefined"
    by (simp add: sample_title_def)
  ultimately show ?thesis
    by (simp add: sample_fetch sample_run)
qed

text \<open>
  C2 as amended: each of the scalar fields \<^verbatim>\<open>title\<close>, \<^verbatim>\<open>titleEnglish\<close>,
  \<^verbatim>\<open>titleJapanese\<close>, \<^verbatim>\<open>type\<close>, \<^verbatim>\<open>status\<close>, \<^verbatim>\<open>episodes\<close>, \<^verbatim>\<open>duration\<close>,
  \<^verbatim>\<open>rating\<close>, \<^verbatim>\<open>source\<close>, \<^verbatim>\<open>synopsis\<close>, \<^verbatim>\<open>background\<close> and of the five
  statistics of a returned title is the value of the raw field, unchanged: a
  raw \<^verbatim>\<open>null\<close> stays \<^verbatim>\<open>null\<close>, an absent field is \<^verbatim>\<open>undefined\<close>, and no
  value is replaced by an empty string, zero or any other sentinel.
\<close>

theorem scalars_verbatim:
  assumes "fst (fetchRaw P malId s0) = Inr (rawAnime, rawChars, rawStaff)"
    and "fst (getFullAnimeDetails P malId s0) = Inr t"
  shows "list_all (\<lambda>(k', k). property t k' = property rawAnime k) scalar_fields
     \<and> list_all (\<lambda>(k', k). property (property t ''stats'') k' = property rawAnime k) stats_fields"
proof -
  from assms obtain co th re ch sf ge where
    t: "t = Anime_entry (newDate P) rawAnime co th re ch sf ge"
    by (rule returned_title)
  show ?thesis unfolding t by (simp add: Anime_entry_def scalar_fields_def stats_fields_def)
qed

theorem scalars_verbatim_witness:
  "fst (fetchRaw sample_platform 52991 start) = Inr (sample_anime, sample_chars, sample_staff)
   \<and> fst (getFullAnimeDetails sample_platform 52991 start) = Inr sample_title
   \<and> list_all (\<lambda>(k', k). property sample_title k' = property sample_anime k) scalar_fields
   \<and> list_all (\<lambda>(k', k). property (property sample_title ''stats'') k' = property sample_anime k)
        stats_fields
   \<and> property sample_anime ''title_japanese'' = JNull
   \<and> property sample_anime ''title_english'' = JUndefined"
proof -
  have "property sample_anime ''title_japanese'' = JNull"
    and "property sample_anime ''title_english'' = JUndefined"
    by (simp_all add: sample_anime_def)
  then show ?thesis
    using scalars_verbatim [OF sample_fetch [of start] sample_run [of start]] sample_fetch [of start]
      sample_run [of start]
    by blast
qed

subsection \<open>C3: a non-success status aborts the call\<close>

text \<open>
  C3: when any of the fetches that an invocation issues is answered with a
  status outside 200 to 299, \<^verbatim>\<open>fetchJikan\<close> throws an \<^verbatim>\<open>Error\<close> whose message
  holds the status code in decimal and the status text, both of which can be
  read back from it; the invocation ends there, in the state and with the
  error of that fetch, and returns no title.
\<close>

theorem upstream_error_aborts:
  assumes "(ep, s) \<in> set (requests P malId s0)"
    and "fst (fetch P (BASE_URL @ ep) (world s)) = Resolved res"
    and "\<not> ok res"
  shows "fst (fetchJikan P ep s) =
           Inl (Error (''Jikan API Error '' @ Number_toString (int (status res)) @ '': ''
                       @ statusText res))
     \<and> getFullAnimeDetails P malId s0 = fetchJikan P ep s
     \<and> (\<forall>t. fst (getFullAnimeDetails P malId s0) \<noteq> Inr t)
     \<and> (\<forall>res'. ''Jikan API Error '' @ Number_toString (int (status res')) @ '': ''
                   @ statusText res'
                 = ''Jikan API Error '' @ Number_toString (int (status res)) @ '': ''
                   @ statusText res
               \<longrightarrow> status res' = status res \<and> statusText res' = statusText res)"
proof -
  note e = fetchJikan_non_success [OF assms(2,3)]
  note a = request_failure_aborts [OF assms(1) e]
  show ?thesis
  proof (intro conjI)
    show "fst (fetchJikan P ep s) =
           Inl (Error (''Jikan API Error '' @ Number_toString (int (status res)) @ '': ''
                       @ statusText res))"
      by (rule e)
    show "getFullAnimeDetails P malId s0 = fetchJikan P ep s"
      by (rule a)
    show "\<forall>t. fst (getFullAnimeDetails P malId s0) \<noteq> Inr t"
      using e a by simp
    show "\<forall>res'. ''Jikan API Error '' @ Number_toString (int (status res')) @ '': ''
                   @ statusText res'
                 = ''Jikan API Error '' @ Number_toString (int (status res)) @ '': ''
                   @ statusText res
               \<longrightarrow> status res' = status res \<and> statusText res' = statusText res"
      using error_message_inj by blast
  qed
qed

theorem upstream_error_aborts_witness:
  "(''/anime/52991/characters'', waiting) \<in> set (requests throttled_platform 52991 start)
   \<and> fst (fetch throttled_platform (BASE_URL @ ''/anime/52991/characters'') (world waiting))
       = Resolved too_many_requests
   \<and> \<not> ok too_many_requests
   \<and> fst (fetchJikan throttled_platform ''/anime/52991/characters'' waiting)
       = Inl (Error ''Jikan API Error 429: Too Many Requests'')
   \<and> fst (getFullAnimeDetails throttled_platform 52991 start)
       = Inl (Error ''Jikan API Error 429: Too Many Requests'')"
proof -
  have h1: "(''/anime/52991/characters'', waiting) \<in> set (requests throttled_platform 52991 start)"
    by (simp add: requests_def throttled_platform_def fetchJikan_serving Number_toString_52991
        BASE_URL_def envelope_def ok_def get_def sleep_def start_def waiting_def DELAY_MS_def
        setTimeout_serving)
  have h2: "fst (fetch throttled_platform (BASE_URL @ ''/anime/52991/characters'') (world waiting))
       = Resolved too_many_requests"
    by (simp add: throttled_platform_def serving_def BASE_URL_def)
  have h3: "\<not> ok too_many_requests"
    by (simp add: ok_def too_many_requests_def)
  note T = upstream_error_aborts [OF h1 h2 h3]
  have n: "Number_toString (int (status too_many_requests)) = ''429''"
    by (simp add: too_many_requests_def Number_toString_429)
  have a: "fst (fetchJikan throttled_platform ''/anime/52991/characters'' waiting)
       = Inl (Error ''Jikan API Error 429: Too Many Requests'')"
    using conjunct1 [OF T] n by (simp add: too_many_requests_def)
  have b: "getFullAnimeDetails throttled_platform 52991 start
       = fetchJikan throttled_platform ''/anime/52991/characters'' waiting"
    using conjunct1 [OF conjunct2 [OF T]] .
  show ?thesis
    using a h1 h2 h3 unfolding b by simp
qed

subsection \<open>C4: one staff entry per position\<close>

text \<open>
  C4: the raw staff payload of a returned title is an array whose entries each
  carry an array of positions, and the title's \<^verbatim>\<open>staff\<close> is the concatenation,
  in input order, of one entry per position of each raw entry, in the order of
  the positions, every one of them with the person object of that raw entry.
  The number of staff entries is the sum of the numbers of positions. On a
  staff array whose entries each carry an array of positions and, unless that
  array is empty, a person, \<open>staff\<close> returns that list rather than throws.
\<close>

theorem staff_flattening:
  "(fst (fetchRaw P malId s0) = Inr (rawAnime, rawChars, rawStaff)
      \<and> fst (getFullAnimeDetails P malId s0) = Inr t
     \<longrightarrow> rawStaff = JArr (elems rawStaff)
       \<and> (\<forall>s \<in> set (elems rawStaff).
             property s ''positions'' = JArr (elems (property s ''positions'')))
       \<and> property t ''staff'' =
           JArr (concat (map (\<lambda>s. map (staff_entry s) (elems (property s ''positions'')))
                             (elems rawStaff)))
       \<and> length (elems (property t ''staff'')) =
           sum_list (map (\<lambda>s. length (elems (property s ''positions''))) (elems rawStaff)))
   \<and> ((\<forall>s \<in> set ss. \<not> nullish s \<and> is_array (property s ''positions'')
             \<and> (elems (property s ''positions'') \<noteq> [] \<longrightarrow> \<not> nullish (property s ''person'')))
     \<longrightarrow> staff (JArr ss) =
           Inr (JArr (concat (map (\<lambda>s. map (staff_entry s) (elems (property s ''positions'')))
                                  ss))))"
proof (intro conjI impI)
  assume H: "fst (fetchRaw P malId s0) = Inr (rawAnime, rawChars, rawStaff)
      \<and> fst (getFullAnimeDetails P malId s0) = Inr t"
  then obtain co th re ch sf ge where sf: "staff rawStaff = Inr sf"
    and t: "t = Anime_entry (newDate P) rawAnime co th re ch sf ge"
    by (blast elim: returned_title)
  note shape = staff_Inr [OF sf]
  show "rawStaff = JArr (elems rawStaff)" using shape by simp
  show "\<forall>s \<in> set (elems rawStaff).
          property s ''positions'' = JArr (elems (property s ''positions''))"
    using Array_flatMap_each [OF sf [unfolded staff_def]] staff_of_Inr(2) by blast
  show out: "property t ''staff'' =
         JArr (concat (map (\<lambda>s. map (staff_entry s) (elems (property s ''positions'')))
                           (elems rawStaff)))"
    using shape t by (simp only: Anime_entry_staff)
  show "length (elems (property t ''staff'')) =
         sum_list (map (\<lambda>s. length (elems (property s ''positions''))) (elems rawStaff))"
    unfolding out by (simp add: length_concat_map)
next
  assume "\<forall>s \<in> set ss. \<not> nullish s \<and> is_array (property s ''positions'')
             \<and> (elems (property s ''positions'') \<noteq> [] \<longrightarrow> \<not> nullish (property s ''person''))"
  then show "staff (JArr ss) =
           Inr (JArr (concat (map (\<lambda>s. map (staff_entry s) (elems (property s ''positions'')))
                                  ss)))"
    by (rule staff_total)
qed

theorem staff_flattening_witness:
  "fst (fetchRaw sample_platform 52991 start) = Inr (sample_anime, sample_chars, sample_staff)
   \<and> fst (getFullAnimeDetails sample_platform 52991 start) = Inr sample_title
   \<and> property sample_title ''staff'' =
         JArr (concat (map (\<lambda>s. map (staff_entry s) (elems (property s ''positions'')))
                           (elems sample_staff)))
   \<and> length (elems (property sample_title ''staff'')) = 2
   \<and> sum_list (map (\<lambda>s. length (elems (property s ''positions''))) (elems sample_staff)) = 2
   \<and> staff sample_staff =
         Inr (JArr (concat (map (\<lambda>s. map (staff_entry s) (elems (property s ''positions'')))
                                (elems sample_staff))))"
proof -
  have n: "sum_list (map (\<lambda>s. length (elems (property s ''positions''))) (elems sample_staff)) = 2"
    by (simp add: sample_staff_def)
  have a: "sample_staff = JArr (elems sample_staff)"
    by (simp add: sample_staff_def)
  have w: "\<forall>s \<in> set (elems sample_staff). \<not> nullish s \<and> is_array (property s ''positions'')
             \<and> (elems (property s ''positions'') \<noteq> [] \<longrightarrow> \<not> nullish (property s ''person''))"
    by (simp add: sample_staff_def)
  note T = staff_flattening [where P = sample_platform and malId = 52991 and ?s0.0 = start
        and rawAnime = sample_anime and rawChars = sample_chars and rawStaff = sample_staff
        and t = sample_title and ss = "elems sample_staff"]
  have "staff (JArr (elems sample_staff)) =
         Inr (JArr (concat (map (\<lambda>s. map (staff_entry s) (elems (property s ''positions'')))
                                (elems sample_staff))))"
    using T w by blast
  then have s: "staff sample_staff =
         Inr (JArr (concat (map (\<lambda>s. map (staff_entry s) (elems (property s ''positions'')))
                                (elems sample_staff))))"
    using a by simp
  have "property sample_title ''staff'' =
         JArr (concat (map (\<lambda>s. map (staff_entry s) (elems (property s ''positions'')))
                           (elems sample_staff)))
     \<and> length (elems (property sample_title ''staff'')) =
         sum_list (map (\<lambda>s. length (elems (property s ''positions''))) (elems sample_staff))"
    using T sample_fetch [of start] sample_run [of start] by blast
  then show ?thesis
    using n s sample_fetch [of start] sample_run [of start] by (simp add: length_concat_map)
qed

subsection \<open>C5: producers, then licensors, then studios\<close>

text \<open>
  C5: the \<^verbatim>\<open>companies\<close> of a returned title are the raw producers, each mapped
  to its (id, name) pair tagged \<^verbatim>\<open>Producer\<close>, followed by the raw licensors
  tagged \<^verbatim>\<open>Licensor\<close>, followed by the raw studios tagged \<^verbatim>\<open>Studio\<close>, each
  group in its input order. On three raw lists without \<^verbatim>\<open>null\<close> entries,
  \<open>companies\<close> returns that list rather than throws.
\<close>

theorem companies_order:
  "(fst (fetchRaw P malId s0) = Inr (rawAnime, rawChars, rawStaff)
      \<and> fst (getFullAnimeDetails P malId s0) = Inr t
     \<longrightarrow> property t ''companies'' =
           JArr (map (company_entry ''Producer'') (elems (property rawAnime ''producers''))
               @ map (company_entry ''Licensor'') (elems (property rawAnime ''licensors''))
               @ map (company_entry ''Studio'') (elems (property rawAnime ''studios''))))
   \<and> (\<not> nullish a
        \<and> property a ''producers'' = JArr ps
        \<and> property a ''licensors'' = JArr ls
        \<and> property a ''studios'' = JArr ss
        \<and> (\<forall>p \<in> set (ps @ ls @ ss). \<not> nullish p)
     \<longrightarrow> companies a = Inr (JArr (map (company_entry ''Producer'') ps
                                    @ map (company_entry ''Licensor'') ls
                                    @ map (company_entry ''Studio'') ss)))"
proof (intro conjI impI)
  assume "fst (fetchRaw P malId s0) = Inr (rawAnime, rawChars, rawStaff)
      \<and> fst (getFullAnimeDetails P malId s0) = Inr t"
  then obtain co th re ch sf ge where co: "companies rawAnime = Inr co"
    and t: "t = Anime_entry (newDate P) rawAnime co th re ch sf ge"
    by (blast elim: returned_title)
  show "property t ''companies'' =
           JArr (map (company_entry ''Producer'') (elems (property rawAnime ''producers''))
               @ map (company_entry ''Licensor'') (elems (property rawAnime ''licensors''))
               @ map (company_entry ''Studio'') (elems (property rawAnime ''studios'')))"
    using companies_Inr(1) [OF co] t by (simp only: Anime_entry_companies)
next
  assume "\<not> nullish a
        \<and> property a ''producers'' = JArr ps
        \<and> property a ''licensors'' = JArr ls
        \<and> property a ''studios'' = JArr ss
        \<and> (\<forall>p \<in> set (ps @ ls @ ss). \<not> nullish p)"
  then show "companies a = Inr (JArr (map (company_entry ''Producer'') ps
                                    @ map (company_entry ''Licensor'') ls
                                    @ map (company_entry ''Studio'') ss))"
    by (intro companies_total) blast+
qed

theorem companies_order_witness:
  "fst (fetchRaw sample_platform 52991 start) = Inr (sample_anime, sample_chars, sample_staff)
   \<and> fst (getFullAnimeDetails sample_platform 52991 start) = Inr sample_title
   \<and> property sample_title ''companies'' =
           JArr (map (company_entry ''Producer'') (elems (property sample_anime ''producers''))
               @ map (company_entry ''Licensor'') (elems (property sample_anime ''licensors''))
               @ map (company_entry ''Studio'') (elems (property sample_anime ''studios'')))
   \<and> map (\<lambda>c. property c ''type'') (elems (property sample_title ''companies''))
       = [JStr ''Producer'', JStr ''Licensor'', JStr ''Studio'']
   \<and> property sample_anime ''producers''
       = JArr [JObj [(''mal_id'', JNum 17), (''name'', JStr ''Aniplex'')]]
   \<and> property sample_anime ''licensors''
       = JArr [JObj [(''mal_id'', JNum 1468), (''name'', JStr ''Crunchyroll'')]]
   \<and> property sample_anime ''studios''
       = JArr [JObj [(''mal_id'', JNum 11), (''name'', JStr ''Madhouse'')]]
   \<and> companies sample_anime =
       Inr (JArr [company_entry ''Producer'' (JObj [(''mal_id'', JNum 17), (''name'', JStr ''Aniplex'')]),
                  company_entry ''Licensor''
                    (JObj [(''mal_id'', JNum 1468), (''name'', JStr ''Crunchyroll'')]),
                  company_entry ''Studio'' (JObj [(''mal_id'', JNum 11), (''name'', JStr ''Madhouse'')])])"
proof -
  have ty: "map (\<lambda>c. property c ''type'') (elems (property sample_title ''companies''))
       = [JStr ''Producer'', JStr ''Licensor'', JStr ''Studio'']"
    by (simp add: sample_title_def)
  have ps: "property sample_anime ''producers''
       = JArr [JObj [(''mal_id'', JNum 17), (''name'', JStr ''Aniplex'')]]"
    and ls: "property sample_anime ''licensors''
       = JArr [JObj [(''mal_id'', JNum 1468), (''name'', JStr ''Crunchyroll'')]]"
    and ss: "property sample_anime ''studios''
       = JArr [JObj [(''mal_id'', JNum 11), (''name'', JStr ''Madhouse'')]]"
    and n: "\<not> nullish sample_anime"
    by (simp_all add: sample_anime_def)
  have el: "\<forall>p \<in> set ([JObj [(''mal_id'', JNum 17), (''name'', JStr ''Aniplex'')]]
                       @ [JObj [(''mal_id'', JNum 1468), (''name'', JStr ''Crunchyroll'')]]
                       @ [JObj [(''mal_id'', JNum 11), (''name'', JStr ''Madhouse'')]]).
              \<not> nullish p"
    by simp
  note T = companies_order [where P = sample_platform and malId = 52991 and ?s0.0 = start
        and rawAnime = sample_anime and rawChars = sample_chars and rawStaff = sample_staff
        and t = sample_title and a = sample_anime
        and ps = "[JObj [(''mal_id'', JNum 17), (''name'', JStr ''Aniplex'')]]"
        and ls = "[JObj [(''mal_id'', JNum 1468), (''name'', JStr ''Crunchyroll'')]]"
        and ss = "[JObj [(''mal_id'', JNum 11), (''name'', JStr ''Madhouse'')]]"]
  have "companies sample_anime =
       Inr (JArr (map (company_entry ''Producer'')
                    [JObj [(''mal_id'', JNum 17), (''name'', JStr ''Aniplex'')]]
                @ map (company_entry ''Licensor'')
                    [JObj [(''mal_id'', JNum 1468), (''name'', JStr ''Crunchyroll'')]]
                @ map (company_entry ''Studio'')
                    [JObj [(''mal_id'', JNum 11), (''name'', JStr ''Madhouse'')]]))"
    using T n ps ls ss el by blast
  moreover have "property sample_title ''companies'' =
           JArr (map (company_entry ''Producer'') (elems (property sample_anime ''producers''))
               @ map (company_entry ''Licensor'') (elems (property sample_anime ''licensors''))
               @ map (company_entry ''Studio'') (elems (property sample_anime ''studios'')))"
    using T sample_fetch [of start] sample_run [of start] by blast
  ultimately show ?thesis
    using ty ps ls ss sample_fetch [of start] sample_run [of start] by simp
qed

subsection \<open>C6: openings, then endings\<close>

text \<open>
  C6: the \<^verbatim>\<open>themes\<close> of a returned title are the raw opening strings, each
  tagged \<^verbatim>\<open>Opening\<close>, followed by the raw ending strings, each tagged
  \<^verbatim>\<open>Ending\<close>, both in input order. A theme object or a sub-list that is
  missing contributes nothing, and \<open>themes\<close> returns rather than throws
  whenever each sub-list is an array or missing.
\<close>

theorem themes_order:
  "(fst (fetchRaw P malId s0) = Inr (rawAnime, rawChars, rawStaff)
      \<and> fst (getFullAnimeDetails P malId s0) = Inr t
     \<longrightarrow> property t ''themes'' = JArr (opening_themes rawAnime @ ending_themes rawAnime))
   \<and> (\<not> nullish a
        \<and> array_or_missing (optGet (property a ''theme'') ''openings'')
        \<and> array_or_missing (optGet (property a ''theme'') ''endings'')
     \<longrightarrow> themes a = Inr (JArr (opening_themes a @ ending_themes a)))
   \<and> (nullish (property a ''theme'') \<longrightarrow> opening_themes a = [] \<and> ending_themes a = [])
   \<and> (nullish (optGet (property a ''theme'') ''openings'') \<longrightarrow> opening_themes a = [])
   \<and> (nullish (optGet (property a ''theme'') ''endings'') \<longrightarrow> ending_themes a = [])"
proof (intro conjI impI)
  assume "fst (fetchRaw P malId s0) = Inr (rawAnime, rawChars, rawStaff)
      \<and> fst (getFullAnimeDetails P malId s0) = Inr t"
  then obtain co th re ch sf ge where th: "themes rawAnime = Inr th"
    and t: "t = Anime_entry (newDate P) rawAnime co th re ch sf ge"
    by (blast elim: returned_title)
  show "property t ''themes'' = JArr (opening_themes rawAnime @ ending_themes rawAnime)"
    using themes_Inr [OF th] t
    by (simp only: Anime_entry_themes opening_themes_def ending_themes_def)
next
  assume "\<not> nullish a
        \<and> array_or_missing (optGet (property a ''theme'') ''openings'')
        \<and> array_or_missing (optGet (property a ''theme'') ''endings'')"
  then show "themes a = Inr (JArr (opening_themes a @ ending_themes a))"
    by (simp add: themes_total)
next
  assume "nullish (property a ''theme'')"
  then show "opening_themes a = []" and "ending_themes a = []"
    by (simp_all add: opening_themes_def ending_themes_def optGet_def)
next
  assume "nullish (optGet (property a ''theme'') ''openings'')"
  then show "opening_themes a = []"
    by (cases "optGet (property a ''theme'') ''openings''") (simp_all add: opening_themes_def)
next
  assume "nullish (optGet (property a ''theme'') ''endings'')"
  then show "ending_themes a = []"
    by (cases "optGet (property a ''theme'') ''endings''") (simp_all add: ending_themes_def)
qed

theorem themes_order_witness:
  "fst (fetchRaw sample_platform 52991 start) = Inr (sample_anime, sample_chars, sample_staff)
   \<and> fst (getFullAnimeDetails sample_platform 52991 start) = Inr sample_title
   \<and> property sample_title ''themes'' =
       JArr (opening_themes sample_anime @ ending_themes sample_anime)
   \<and> nullish (optGet (property sample_anime ''theme'') ''endings'')
   \<and> ending_themes sample_anime = []
   \<and> themes sample_anime = Inr (JArr (opening_themes sample_anime @ ending_themes sample_anime))
   \<and> nullish (property (JObj []) ''theme'')
   \<and> opening_themes (JObj []) = []
   \<and> themes (JObj []) = Inr (JArr (opening_themes (JObj []) @ ending_themes (JObj [])))"
proof -
  have e: "nullish (optGet (property sample_anime ''theme'') ''endings'')"
    and o: "array_or_missing (optGet (property sample_anime ''theme'') ''openings'')"
    and n: "\<not> nullish sample_anime"
    by (simp_all add: sample_anime_def optGet_def)
  have e': "array_or_missing (optGet (property sample_anime ''theme'') ''endings'')"
    using e by (cases "optGet (property sample_anime ''theme'') ''endings''") simp_all
  have m: "nullish (property (JObj []) ''theme'')"
    and m': "array_or_missing (optGet (property (JObj []) ''theme'') ''openings'')"
      "array_or_missing (optGet (property (JObj []) ''theme'') ''endings'')"
      "\<not> nullish (JObj [])"
    by (simp_all add: optGet_def)
  show ?thesis
    using themes_order [where P = sample_platform and malId = 52991 and ?s0.0 = start
        and rawAnime = sample_anime and rawChars = sample_chars and rawStaff = sample_staff
        and t = sample_title and a = sample_anime]
      themes_order [where P = sample_platform and malId = 52991 and ?s0.0 = start
        and rawAnime = sample_anime and rawChars = sample_chars and rawStaff = sample_staff
        and t = sample_title and a = "JObj []"]
      sample_fetch [of start] sample_run [of start] e o n e' m m'
    by blast
qed

subsection \<open>C7: the title's id\<close>

text \<open>
  C7: the \<^verbatim>\<open>id\<close> of a returned title is the \<^verbatim>\<open>mal_id\<close> of the raw metadata
  payload.
\<close>

theorem id_preserved:
  assumes "fst (fetchRaw P malId s0) = Inr (rawAnime, rawChars, rawStaff)"
    and "fst (getFullAnimeDetails P malId s0) = Inr t"
  shows "property t ''id'' = property rawAnime ''mal_id''"
proof -
  from assms obtain co th re ch sf ge where "t = Anime_entry (newDate P) rawAnime co th re ch sf ge"
    by (rule returned_title)
  then show ?thesis by (simp only: Anime_entry_id)
qed

theorem id_preserved_witness:
  "fst (fetchRaw sample_platform 52991 start) = Inr (sample_anime, sample_chars, sample_staff)
   \<and> fst (getFullAnimeDetails sample_platform 52991 start) = Inr sample_title
   \<and> property sample_title ''id'' = property sample_anime ''mal_id''
   \<and> property sample_anime ''mal_id'' = JNum 52991"
proof -
  have "property sample_anime ''mal_id'' = JNum 52991"
    by (simp add: sample_anime_def)
  then show ?thesis
    using id_preserved [OF sample_fetch [of start] sample_run [of start]] sample_fetch [of start]
      sample_run [of start]
    by simp
qed

subsection \<open>C8: invariants of a returned title\<close>

text \<open>
  C8 says that in every returned title the id is that of the metadata fetch,
  every nested id is a non-negative integer, every collection is present, and
  \<^verbatim>\<open>airedFrom\<close> and \<^verbatim>\<open>airedTo\<close> are \<^verbatim>\<open>null\<close> or a valid instant. The code
  copies ids and hands the date strings to \<^verbatim>\<open>new Date\<close> without a check: for
  a genre with \<^verbatim>\<open>mal_id\<close> \<open>-1\<close> and the start date \<^verbatim>\<open>"soon"\<close> it returns a
  title whose only nested id is \<open>-1\<close> and whose \<^verbatim>\<open>airedFrom\<close> is an invalid
  date.
\<close>

theorem nonneg_ids_counterexample:
  "fst (fetchRaw odd_platform 7 start) = Inr (odd_anime, JArr [], JArr [])
   \<and> fst (getFullAnimeDetails odd_platform 7 start) = Inr odd_title
   \<and> nested_ids odd_title = [JNum (- 1)]
   \<and> \<not> nonneg_integer (JNum (- 1))
   \<and> property odd_title ''airedFrom'' = JDate None"
proof -
  have "nested_ids odd_title = [JNum (- 1)]"
    by (simp add: nested_ids_def odd_title_def)
  moreover have "property odd_title ''airedFrom'' = JDate None"
    by (simp add: odd_title_def)
  ultimately show ?thesis
    by (simp add: odd_fetch odd_run)
qed

text \<open>
  C8 as amended: in every returned title the id is the \<^verbatim>\<open>mal_id\<close> of the
  metadata payload; every nested id (of genres, companies, related entries,
  characters, voice actors and staff persons) is an id of the raw payloads,
  copied unchanged, so the nested ids are non-negative integers whenever the
  upstream ids are; each of the six collections is an array, as is the
  \<^verbatim>\<open>voiceActors\<close> of every character; and \<^verbatim>\<open>airedFrom\<close> and \<^verbatim>\<open>airedTo\<close> are
  \<^verbatim>\<open>null\<close> when the raw date is missing or falsy and otherwise the \<^verbatim>\<open>Date\<close>
  that \<^verbatim>\<open>new Date\<close> makes of the raw value, valid or not.
\<close>

theorem title_invariants:
  assumes "fst (fetchRaw P malId s0) = Inr (rawAnime, rawChars, rawStaff)"
    and "fst (getFullAnimeDetails P malId s0) = Inr t"
  shows "property t ''id'' = property rawAnime ''mal_id''
     \<and> set (nested_ids t) \<subseteq> set (upstream_ids rawAnime rawChars rawStaff)
     \<and> (list_all nonneg_integer (upstream_ids rawAnime rawChars rawStaff)
          \<longrightarrow> list_all nonneg_integer (nested_ids t))
     \<and> list_all (\<lambda>k. is_array (property t k)) collection_fields
     \<and> (\<forall>c \<in> set (elems (property t ''characters'')). is_array (property c ''voiceActors''))
     \<and> property t ''airedFrom'' =
         (if truthy (optGet (property rawAnime ''aired'') ''from'')
          then JDate (newDate P (optGet (property rawAnime ''aired'') ''from'')) else JNull)
     \<and> property t ''airedTo'' =
         (if truthy (optGet (property rawAnime ''aired'') ''to'')
          then JDate (newDate P (optGet (property rawAnime ''aired'') ''to'')) else JNull)"
proof -
  from assms obtain co th re ch sf ge where
    t: "t = Anime_entry (newDate P) rawAnime co th re ch sf ge"
    by (rule returned_title)
  have id: "property t ''id'' = property rawAnime ''mal_id''"
    unfolding t by (rule Anime_entry_id)
  note sub = nested_ids_upstream [OF assms]
  have inh: "list_all nonneg_integer (nested_ids t)"
    if "list_all nonneg_integer (upstream_ids rawAnime rawChars rawStaff)"
    using that sub unfolding list_all_iff by blast
  have afrom: "property t ''airedFrom'' =
         (if truthy (optGet (property rawAnime ''aired'') ''from'')
          then JDate (newDate P (optGet (property rawAnime ''aired'') ''from'')) else JNull)"
    unfolding t by (simp add: Anime_entry_def date_or_null_def)
  have ato: "property t ''airedTo'' =
         (if truthy (optGet (property rawAnime ''aired'') ''to'')
          then JDate (newDate P (optGet (property rawAnime ''aired'') ''to'')) else JNull)"
    unfolding t by (simp add: Anime_entry_def date_or_null_def)
  show ?thesis
    using id sub inh collections_arrays [OF assms] afrom ato by blast
qed

theorem title_invariants_witness:
  "fst (fetchRaw sample_platform 52991 start) = Inr (sample_anime, sample_chars, sample_staff)
   \<and> fst (getFullAnimeDetails sample_platform 52991 start) = Inr sample_title
   \<and> property sample_title ''id'' = property sample_anime ''mal_id''
   \<and> list_all nonneg_integer (upstream_ids sample_anime sample_chars sample_staff)
   \<and> list_all nonneg_integer (nested_ids sample_title)
   \<and> list_all (\<lambda>k. is_array (property sample_title k)) collection_fields
   \<and> property sample_title ''airedFrom'' = JDate (Some 1695945600000)
   \<and> property sample_title ''airedTo'' = JNull"
proof -
  have u: "list_all nonneg_integer (upstream_ids sample_anime sample_chars sample_staff)"
    by (simp add: upstream_ids_def raw_persons_def sample_anime_def sample_chars_def
        sample_staff_def)
  have d: "property sample_title ''airedFrom'' = JDate (Some 1695945600000)"
    "property sample_title ''airedTo'' = JNull"
    by (simp_all add: sample_title_def)
  show ?thesis
    using title_invariants [OF sample_fetch [of start] sample_run [of start]] sample_fetch [of start]
      sample_run [of start] u d
    by blast
qed

subsection \<open>C9: the same payloads give the same title\<close>

text \<open>
  C9: two invocations with the same id, started in any two states of the
  trace and of the world (the second, for one, in the state the first has
  left), whose three fetches return the same raw payloads, have the same
  outcome: the same title, or the same error of the mapping. The call keeps
  nothing from one invocation to the next.
\<close>

theorem same_payloads_same_title:
  assumes "fst (fetchRaw P malId s) = Inr raw"
    and "fst (fetchRaw P malId s') = Inr raw"
  shows "fst (getFullAnimeDetails P malId s) = fst (getFullAnimeDetails P malId s')"
proof -
  obtain a c st where raw: "raw = (a, c, st)" by (cases raw)
  show ?thesis
    using getFullAnimeDetails_fetched [of P malId s a c st]
      getFullAnimeDetails_fetched [of P malId s' a c st] assms raw
    by simp
qed

theorem same_payloads_same_title_witness:
  "fst (fetchRaw sample_platform 52991 start) = Inr (sample_anime, sample_chars, sample_staff)
   \<and> fst (fetchRaw sample_platform 52991 (snd (getFullAnimeDetails sample_platform 52991 start)))
       = Inr (sample_anime, sample_chars, sample_staff)
   \<and> fst (getFullAnimeDetails sample_platform 52991 start)
       = fst (getFullAnimeDetails sample_platform 52991
                (snd (getFullAnimeDetails sample_platform 52991 start)))
   \<and> fst (getFullAnimeDetails sample_platform 52991 start) = Inr sample_title"
  using same_payloads_same_title [OF sample_fetch [of start]
      sample_fetch [of "snd (getFullAnimeDetails sample_platform 52991 start)"]]
    sample_fetch sample_run
  by simp

subsection \<open>C10: image fields\<close>

text \<open>
  C10: every image field of a character, voice actor or staff person of a
  returned title is the upstream image URL of one of the raw characters or
  persons when that URL is truthy and \<^verbatim>\<open>null\<close> otherwise; it is never the
  empty string and never \<^verbatim>\<open>undefined\<close>. With upstream URLs that are strings
  where present, as \<^verbatim>\<open>JikanImage\<close> declares them, every image field is
  \<^verbatim>\<open>null\<close> or a non-empty string.
\<close>

theorem image_null_or_nonempty:
  assumes "fst (fetchRaw P malId s0) = Inr (rawAnime, rawChars, rawStaff)"
    and "fst (getFullAnimeDetails P malId s0) = Inr t"
  shows "(\<forall>img \<in> set (title_images t).
            img \<noteq> JStr [] \<and> img \<noteq> JUndefined
            \<and> (\<exists>x \<in> set (raw_persons rawChars rawStaff).
                  img = (if truthy (raw_image_url x) then raw_image_url x else JNull)))
       \<and> ((\<forall>x \<in> set (raw_persons rawChars rawStaff). string_or_missing (raw_image_url x))
           \<longrightarrow> (\<forall>img \<in> set (title_images t). null_or_nonempty_string img))"
proof (intro conjI ballI impI)
  fix img assume img: "img \<in> set (title_images t)"
  from title_images_sources [OF assms img] obtain x where
    x: "x \<in> set (raw_persons rawChars rawStaff)" and eq: "img = or_else (raw_image_url x) JNull"
    by blast
  show "img \<noteq> JStr []" and "img \<noteq> JUndefined"
    using eq or_else_null_cases [of "raw_image_url x"] by simp_all
  show "\<exists>x \<in> set (raw_persons rawChars rawStaff).
           img = (if truthy (raw_image_url x) then raw_image_url x else JNull)"
    using x eq unfolding or_else_def by blast
next
  fix img
  assume typed: "\<forall>x \<in> set (raw_persons rawChars rawStaff). string_or_missing (raw_image_url x)"
    and img: "img \<in> set (title_images t)"
  from title_images_sources [OF assms img] obtain x where
    x: "x \<in> set (raw_persons rawChars rawStaff)" and eq: "img = or_else (raw_image_url x) JNull"
    by blast
  show "null_or_nonempty_string img"
    using typed x eq or_else_null_cases [of "raw_image_url x"] by simp
qed

theorem image_null_or_nonempty_witness:
  "fst (fetchRaw sample_platform 52991 start) = Inr (sample_anime, sample_chars, sample_staff)
   \<and> fst (getFullAnimeDetails sample_platform 52991 start) = Inr sample_title
   \<and> map raw_image_url (raw_persons sample_chars sample_staff)
       = [JStr ''https://example.com/frieren.jpg'', JStr [], JUndefined]
   \<and> title_images sample_title
       = [JStr ''https://example.com/frieren.jpg'', JNull, JNull, JNull]
   \<and> list_all null_or_nonempty_string (title_images sample_title)"
proof -
  have r: "map raw_image_url (raw_persons sample_chars sample_staff)
       = [JStr ''https://example.com/frieren.jpg'', JStr [], JUndefined]"
    by (simp add: raw_persons_def raw_image_url_def optGet_def sample_chars_def sample_staff_def)
  have "list_all string_or_missing (map raw_image_url (raw_persons sample_chars sample_staff))"
    unfolding r by simp
  then have typed: "\<forall>x \<in> set (raw_persons sample_chars sample_staff).
      string_or_missing (raw_image_url x)"
    by (simp add: list_all_iff)
  have i: "title_images sample_title
       = [JStr ''https://example.com/frieren.jpg'', JNull, JNull, JNull]"
    by (simp add: title_images_def sample_title_def)
  have "\<forall>img \<in> set (title_images sample_title). null_or_nonempty_string img"
    using image_null_or_nonempty [OF sample_fetch [of start] sample_run [of start]] typed by blast
  then have "list_all null_or_nonempty_string (title_images sample_title)"
    by (simp add: list_all_iff)
  then show ?thesis
    using r i sample_fetch [of start] sample_run [of start] by simp
qed

end
